theory Spec2Isabelle
  imports Complex_Main
begin

section \<open>Common ground: Python exceptions and effects\<close>

text \<open>
  The two scripts are Python programs that call into the GDAL/OGR library. A run of a
  script is modelled as a pure function that returns the list of effects the run issues,
  in order, together with its outcome: the returned value or the exception that ends it.
  Only subclasses of Python's \<^verbatim>\<open>Exception\<close> are modelled (they are what
  \<^verbatim>\<open>except Exception\<close> catches).
\<close>

datatype exn = IndexError | ValueError | AttributeError | TypeError | RuntimeError string

text \<open>
  \<open>('e, 'a) run\<close>: the effects issued so far and either the exception raised or the value.
\<close>

type_synonym ('e, 'a) run = "'e list \<times> (exn + 'a)"

definition ret :: "'a \<Rightarrow> ('e, 'a) run" where
  "ret x = ([], Inr x)"

definition raise :: "exn \<Rightarrow> ('e, 'a) run" where
  "raise e = ([], Inl e)"

definition emit :: "'e \<Rightarrow> ('e, unit) run" where
  "emit ev = ([ev], Inr ())"

text \<open>A library call that returns a value or raises, without an effect of its own.\<close>

definition lib :: "exn + 'a \<Rightarrow> ('e, 'a) run" where
  "lib r = ([], r)"

text \<open>A library call made for its effect: it returns nothing of interest, or raises.\<close>

definition lib_unit :: "exn option \<Rightarrow> ('e, unit) run" where
  "lib_unit r = ([], case r of None \<Rightarrow> Inr () | Some e \<Rightarrow> Inl e)"

text \<open>
  Looking up a method on an object reference: on \<^verbatim>\<open>None\<close> Python raises
  \<^verbatim>\<open>AttributeError\<close>.
\<close>

definition attr_of :: "'a option \<Rightarrow> ('e, 'a) run" where
  "attr_of obj = (case obj of None \<Rightarrow> raise AttributeError | Some x \<Rightarrow> ret x)"

text \<open>Sequencing: the second part runs only when the first did not raise.\<close>

definition and_then :: "('e, 'a) run \<Rightarrow> ('a \<Rightarrow> ('e, 'b) run) \<Rightarrow> ('e, 'b) run" where
  "and_then m f =
     (case m of
        (t, Inl e) \<Rightarrow> (t, Inl e)
      | (t, Inr x) \<Rightarrow> (case f x of (t', r) \<Rightarrow> (t @ t', r)))"

text \<open>
  \<^verbatim>\<open>sys.exit(main(sys.argv))\<close>: \<^verbatim>\<open>None\<close> exits with status 0, an integer
  with that status, and an uncaught exception ends the interpreter with status 1.
\<close>

definition exit_status :: "exn + int option \<Rightarrow> int" where
  "exit_status r = (case r of Inl e \<Rightarrow> 1 | Inr None \<Rightarrow> 0 | Inr (Some n) \<Rightarrow> n)"

section \<open>gdal\_proximity.py\<close>

subsection \<open>The library as the script sees it\<close>

text \<open>
  Library objects are opaque handles. \<open>drvref\<close> is what the local variable
  \<^verbatim>\<open>driver_name\<close> of \<^verbatim>\<open>gdal_proximity\<close> can hold: the name given by the caller or
  found by \<^verbatim>\<open>GetOutputDriverFor\<close>, or the driver object that
  \<^verbatim>\<open>gdal.IdentifyDriver\<close> returns.
\<close>

datatype dataset = Dataset nat
datatype band = Band nat
datatype driver = Driver nat
datatype geotransform = GeoTransform nat
datatype access = GA_ReadOnly | GA_Update
datatype callback = TermProgress_nocb
datatype drvref = DrvName string | DrvObj driver

text \<open>
  The effects of a run of gdal\_proximity.py: what it writes, and the library calls that
  create or change a dataset. A call is recorded when it is issued.
\<close>

datatype event =
    Stdout string
  | Stderr string
  | PrintUsage bool
  | Call_Create driver "string option" int int int int "string list"
  | Call_SetGeoTransform dataset geotransform
  | Call_SetProjection dataset string
  | Call_ComputeProximity "band option" "band option" "string list" "callback option"

text \<open>
  The behaviour of the library and of the builtin \<^verbatim>\<open>int()\<close> during one run. Every
  function that hands out an object may return \<^verbatim>\<open>None\<close> or raise (the decorator
  \<^verbatim>\<open>enable_gdal_exceptions\<close> of \<^verbatim>\<open>main\<close> selects raising); \<open>py_int\<close> is
  \<^verbatim>\<open>None\<close> where \<^verbatim>\<open>int()\<close> raises \<^verbatim>\<open>ValueError\<close>.
  \<^verbatim>\<open>GetOutputDriverFor\<close> lives in \<^verbatim>\<open>osgeo_utils.auxiliary.util\<close>.
\<close>

record gdal_env =
  GeneralCmdLineProcessor :: "string list \<Rightarrow> string list option"
  py_int :: "string \<Rightarrow> int option"
  gdal_Open :: "string option \<Rightarrow> access \<Rightarrow> exn + dataset option"
  RasterXSize :: "dataset \<Rightarrow> int"
  RasterYSize :: "dataset \<Rightarrow> int"
  GetRasterBand :: "dataset \<Rightarrow> int \<Rightarrow> exn + band option"
  IdentifyDriver :: "string option \<Rightarrow> exn + driver option"
  GetOutputDriverFor :: "string option \<Rightarrow> exn + string"
  GetDriverByName :: "drvref \<Rightarrow> exn + driver option"
  GetDataTypeByName :: "string \<Rightarrow> exn + int"
  drv_Create :: "driver \<Rightarrow> string option \<Rightarrow> int \<Rightarrow> int \<Rightarrow> int \<Rightarrow> int \<Rightarrow> string list
                 \<Rightarrow> exn + dataset option"
  GetGeoTransform :: "dataset \<Rightarrow> exn + geotransform"
  SetGeoTransform :: "dataset \<Rightarrow> geotransform \<Rightarrow> exn option"
  GetProjectionRef :: "dataset \<Rightarrow> exn + string"
  SetProjection :: "dataset \<Rightarrow> string \<Rightarrow> exn option"
  ComputeProximity :: "band option \<Rightarrow> band option \<Rightarrow> string list \<Rightarrow> callback option
                       \<Rightarrow> exn option"

subsection \<open>Usage and the argument loop of main\<close>

text \<open>
  The nine local variables of \<^verbatim>\<open>main\<close>, which are also the nine keyword arguments of
  \<^verbatim>\<open>gdal_proximity\<close>. The two option lists are never \<^verbatim>\<open>None\<close> in \<^verbatim>\<open>main\<close>, and
  \<^verbatim>\<open>gdal_proximity\<close> replaces \<^verbatim>\<open>None\<close> by the empty list on entry.
\<close>

record params =
  driver_name :: "string option"
  creation_options :: "string list"
  alg_options :: "string list"
  src_filename :: "string option"
  src_band_n :: int
  dst_filename :: "string option"
  dst_band_n :: int
  creation_type :: string
  quiet :: bool

definition init_params :: params where
  "init_params =
     \<lparr> driver_name = None, creation_options = [], alg_options = [],
       src_filename = None, src_band_n = 1, dst_filename = None, dst_band_n = 1,
       creation_type = ''Float32'', quiet = False \<rparr>"

text \<open>\<^verbatim>\<open>Usage(isError)\<close> prints the usage text to stderr or stdout and returns 2 or 0.\<close>

definition Usage :: "bool \<Rightarrow> event list \<times> int" where
  "Usage isError = ([PrintUsage isError], if isError then 2 else 0)"

text \<open>\<^verbatim>\<open>argv[i]\<close> for a non-negative index.\<close>

definition item :: "string list \<Rightarrow> nat \<Rightarrow> exn + string" where
  "item argv i = (if i < length argv then Inr (argv ! i) else Inl IndexError)"

text \<open>
  One pass through the body of the \<^verbatim>\<open>while\<close> loop, for \<open>i < length argv\<close>, up to but
  excluding the final \<^verbatim>\<open>i = i + 1\<close>: the loop goes on with an index and new locals, or
  \<^verbatim>\<open>main\<close> returns, or an exception is raised.
\<close>

datatype step = Next nat params | Exit "event list" int

definition with_value :: "string list \<Rightarrow> nat \<Rightarrow> (string \<Rightarrow> exn + params) \<Rightarrow> exn + step" where
  "with_value argv i f =
     (case item argv (i + 1) of
        Inl e \<Rightarrow> Inl e
      | Inr v \<Rightarrow> (case f v of Inl e \<Rightarrow> Inl e | Inr st \<Rightarrow> Inr (Next (i + 1) st)))"

definition parse_arg :: "gdal_env \<Rightarrow> string list \<Rightarrow> nat \<Rightarrow> params \<Rightarrow> exn + step" where
  "parse_arg env argv i st =
     (let arg = argv ! i in
      if arg = ''--help'' then
        (case Usage False of (evs, c) \<Rightarrow> Inr (Exit evs c))
      else if arg = ''-of'' \<or> arg = ''-f'' then
        with_value argv i (\<lambda>v. Inr (st\<lparr>driver_name := Some v\<rparr>))
      else if arg = ''-co'' then
        with_value argv i (\<lambda>v. Inr (st\<lparr>creation_options := creation_options st @ [v]\<rparr>))
      else if arg = ''-ot'' then
        with_value argv i (\<lambda>v. Inr (st\<lparr>creation_type := v\<rparr>))
      else if arg = ''-maxdist'' then
        with_value argv i (\<lambda>v. Inr (st\<lparr>alg_options := alg_options st @ [''MAXDIST='' @ v]\<rparr>))
      else if arg = ''-values'' then
        with_value argv i (\<lambda>v. Inr (st\<lparr>alg_options := alg_options st @ [''VALUES='' @ v]\<rparr>))
      else if arg = ''-distunits'' then
        with_value argv i (\<lambda>v. Inr (st\<lparr>alg_options := alg_options st @ [''DISTUNITS='' @ v]\<rparr>))
      else if arg = ''-nodata'' then
        with_value argv i (\<lambda>v. Inr (st\<lparr>alg_options := alg_options st @ [''NODATA='' @ v]\<rparr>))
      else if arg = ''-use_input_nodata'' then
        with_value argv i
          (\<lambda>v. Inr (st\<lparr>alg_options := alg_options st @ [''USE_INPUT_NODATA='' @ v]\<rparr>))
      else if arg = ''-fixed-buf-val'' then
        with_value argv i
          (\<lambda>v. Inr (st\<lparr>alg_options := alg_options st @ [''FIXED_BUF_VAL='' @ v]\<rparr>))
      else if arg = ''-srcband'' then
        with_value argv i
          (\<lambda>v. case py_int env v of None \<Rightarrow> Inl ValueError
                | Some n \<Rightarrow> Inr (st\<lparr>src_band_n := n\<rparr>))
      else if arg = ''-dstband'' then
        with_value argv i
          (\<lambda>v. case py_int env v of None \<Rightarrow> Inl ValueError
                | Some n \<Rightarrow> Inr (st\<lparr>dst_band_n := n\<rparr>))
      else if arg = ''-q'' \<or> arg = ''-quiet'' then
        Inr (Next i (st\<lparr>quiet := True\<rparr>))
      else
        (case arg of
           [] \<Rightarrow> Inl IndexError
         | c # _ \<Rightarrow>
            if c = CHR ''-'' then
              (case Usage True of
                 (evs, c) \<Rightarrow>
                   Inr (Exit (Stderr (''Unrecognized option : '' @ arg @ [CHR 0x0A]) # evs) c))
            else if src_filename st = None then
              Inr (Next i (st\<lparr>src_filename := Some arg\<rparr>))
            else if dst_filename st = None then
              Inr (Next i (st\<lparr>dst_filename := Some arg\<rparr>))
            else
              (case Usage True of (evs, c) \<Rightarrow> Inr (Exit evs c))))"

text \<open>
  The \<^verbatim>\<open>while i < len(argv)\<close> loop from index \<open>i\<close> with locals \<open>st\<close>: it ends with the
  locals when the arguments are used up, or with the \<^verbatim>\<open>return\<close> of \<^verbatim>\<open>main\<close> taken
  inside the loop, or with an exception.
\<close>

datatype parsed = Parsed params | Returned "event list" int

function main_loop :: "gdal_env \<Rightarrow> string list \<Rightarrow> nat \<Rightarrow> params \<Rightarrow> exn + parsed" where
  "main_loop env argv i st =
     (if i < length argv then
        (case parse_arg env argv i st of
           Inl e \<Rightarrow> Inl e
         | Inr (Exit evs c) \<Rightarrow> Inr (Returned evs c)
         | Inr (Next j st') \<Rightarrow> main_loop env argv (j + 1) st')
      else Inr (Parsed st))"
  by pat_completeness auto
termination
  by (relation "measure (\<lambda>(env, argv, i, st). length argv - i)")
     (auto simp: parse_arg_def with_value_def Let_def Usage_def
           split: if_splits sum.splits list.splits option.splits)

declare main_loop.simps [simp del]

subsection \<open>gdal\_proximity\<close>

text \<open>\<^verbatim>\<open>"%s" % x\<close> for a value that is a string or \<^verbatim>\<open>None\<close>.\<close>

definition py_str :: "string option \<Rightarrow> string" where
  "py_str x = (case x of None \<Rightarrow> ''None'' | Some s \<Rightarrow> s)"

text \<open>
  The \<^verbatim>\<open>try\<close> block: the destination opened as an existing file. It yields the new
  value of the local \<^verbatim>\<open>driver_name\<close>, which the first statement of the block
  overwrites with the result of \<^verbatim>\<open>gdal.IdentifyDriver\<close> unless that call raises, and
  \<^verbatim>\<open>dst_ds\<close> with \<^verbatim>\<open>dstband\<close>, or \<^verbatim>\<open>None\<close> for \<^verbatim>\<open>dst_ds\<close>. Every exception
  inside the block is caught; when \<^verbatim>\<open>gdal.Open\<close> returns \<^verbatim>\<open>None\<close>, the call
  \<^verbatim>\<open>dst_ds.GetRasterBand\<close> raises \<^verbatim>\<open>AttributeError\<close>, which is caught as well.
\<close>

definition open_existing ::
  "gdal_env \<Rightarrow> params \<Rightarrow> drvref option \<times> (dataset \<times> band option) option" where
  "open_existing env a =
     (case IdentifyDriver env (dst_filename a) of
        Inl e \<Rightarrow> (map_option DrvName (driver_name a), None)
      | Inr None \<Rightarrow> (None, None)
      | Inr (Some d) \<Rightarrow>
         (case gdal_Open env (dst_filename a) GA_Update of
            Inl e \<Rightarrow> (Some (DrvObj d), None)
          | Inr None \<Rightarrow> (Some (DrvObj d), None)
          | Inr (Some dst_ds) \<Rightarrow>
             (case GetRasterBand env dst_ds (dst_band_n a) of
                Inl e \<Rightarrow> (Some (DrvObj d), None)
              | Inr dstband \<Rightarrow> (Some (DrvObj d), Some (dst_ds, dstband)))))"

text \<open>
  The block under \<^verbatim>\<open>if dst_ds is None\<close>: the output file is created from the source
  dataset \<open>src_ds\<close>; the result is \<^verbatim>\<open>dstband\<close>.
\<close>

definition create_output ::
  "gdal_env \<Rightarrow> params \<Rightarrow> dataset \<Rightarrow> drvref option \<Rightarrow> (event, band option) run" where
  "create_output env a src_ds drv_name =
     and_then (case drv_name of
                 None \<Rightarrow> and_then (lib (GetOutputDriverFor env (dst_filename a)))
                                   (\<lambda>n. ret (DrvName n))
               | Some n \<Rightarrow> ret n) (\<lambda>name.
     and_then (lib (GetDriverByName env name)) (\<lambda>drv_ref.
     and_then (attr_of drv_ref) (\<lambda>drv.
     and_then (lib (GetDataTypeByName env (creation_type a))) (\<lambda>dt.
     and_then (emit (Call_Create drv (dst_filename a) (RasterXSize env src_ds)
                       (RasterYSize env src_ds) 1 dt (creation_options a))) (\<lambda>_.
     and_then (lib (drv_Create env drv (dst_filename a) (RasterXSize env src_ds)
                       (RasterYSize env src_ds) 1 dt (creation_options a))) (\<lambda>dst_ref.
     and_then (attr_of dst_ref) (\<lambda>dst_ds.
     and_then (lib (GetGeoTransform env src_ds)) (\<lambda>gt.
     and_then (emit (Call_SetGeoTransform dst_ds gt)) (\<lambda>_.
     and_then (lib_unit (SetGeoTransform env dst_ds gt)) (\<lambda>_.
     and_then (lib (GetProjectionRef env src_ds)) (\<lambda>wkt.
     and_then (emit (Call_SetProjection dst_ds wkt)) (\<lambda>_.
     and_then (lib_unit (SetProjection env dst_ds wkt)) (\<lambda>_.
     lib (GetRasterBand env dst_ds 1))))))))))))))"

definition gdal_proximity :: "gdal_env \<Rightarrow> params \<Rightarrow> (event, int option) run" where
  "gdal_proximity env a =
     and_then (lib (gdal_Open env (src_filename a) GA_ReadOnly)) (\<lambda>src_ref.
       case src_ref of
         None \<Rightarrow>
           and_then (emit (Stdout (''Unable to open '' @ py_str (src_filename a) @ [CHR 0x0A])))
             (\<lambda>_. ret (Some 1))
       | Some src_ds \<Rightarrow>
           and_then (lib (GetRasterBand env src_ds (src_band_n a))) (\<lambda>srcband.
           and_then (case open_existing env a of
                       (drv_name, Some (dst_ds, dstband)) \<Rightarrow> ret dstband
                     | (drv_name, None) \<Rightarrow> create_output env a src_ds drv_name) (\<lambda>dstband.
           let prog_func = (if quiet a then None else Some TermProgress_nocb) in
           and_then (emit (Call_ComputeProximity srcband dstband (alg_options a) prog_func))
             (\<lambda>_.
           and_then (lib_unit (ComputeProximity env srcband dstband (alg_options a) prog_func))
             (\<lambda>_.
           ret None)))))"

subsection \<open>main\<close>

definition main :: "gdal_env \<Rightarrow> string list \<Rightarrow> (event, int option) run" where
  "main env argv0 =
     (case GeneralCmdLineProcessor env argv0 of
        None \<Rightarrow> ret (Some 0)
      | Some argv \<Rightarrow>
         (case main_loop env argv 1 init_params of
            Inl e \<Rightarrow> raise e
          | Inr (Returned evs c) \<Rightarrow> (evs, Inr (Some c))
          | Inr (Parsed st) \<Rightarrow>
             if src_filename st = None then
               (case Usage True of
                  (evs, c) \<Rightarrow> (Stderr (''Missing <srcfile>'' @ [CHR 0x0A]) # evs, Inr (Some c)))
             else if dst_filename st = None then
               (case Usage True of
                  (evs, c) \<Rightarrow> (Stderr (''Missing <dstfile>'' @ [CHR 0x0A]) # evs, Inr (Some c)))
             else gdal_proximity env st))"

text \<open>
  An environment for concrete runs: every file opens, every call succeeds, no general
  option is filtered out, and \<^verbatim>\<open>int()\<close> knows the numerals 1 to 3.
\<close>

definition demo_env :: gdal_env where
  "demo_env =
     \<lparr> GeneralCmdLineProcessor = Some,
       py_int = (\<lambda>s. if s = ''1'' then Some 1 else if s = ''2'' then Some 2
                      else if s = ''3'' then Some 3 else None),
       gdal_Open = (\<lambda>f m. Inr (Some (Dataset (if m = GA_Update then 1 else 0)))),
       RasterXSize = (\<lambda>ds. 40),
       RasterYSize = (\<lambda>ds. 30),
       GetRasterBand = (\<lambda>ds n. Inr (Some (Band (case ds of Dataset k \<Rightarrow> 10 * k + nat n)))),
       IdentifyDriver = (\<lambda>f. Inr None),
       GetOutputDriverFor = (\<lambda>f. Inr ''GTiff''),
       GetDriverByName = (\<lambda>n. Inr (Some (Driver 0))),
       GetDataTypeByName = (\<lambda>t. Inr (if t = ''Float32'' then 6 else 1)),
       drv_Create = (\<lambda>d f x y n t co. Inr (Some (Dataset 2))),
       GetGeoTransform = (\<lambda>ds. Inr (GeoTransform 7)),
       SetGeoTransform = (\<lambda>ds gt. None),
       GetProjectionRef = (\<lambda>ds. Inr ''WGS84''),
       SetProjection = (\<lambda>ds wkt. None),
       ComputeProximity = (\<lambda>s d opts cb. None) \<rparr>"

text \<open>The same library, except that the source file does not open.\<close>

definition no_source_env :: gdal_env where
  "no_source_env = demo_env\<lparr> gdal_Open := (\<lambda>f m. Inr None) \<rparr>"

subsection \<open>The command line as the usage text describes it\<close>

definition value_flags :: "string list" where
  "value_flags = [''-of'', ''-f'', ''-co'', ''-ot'', ''-maxdist'', ''-values'', ''-distunits'',
     ''-nodata'', ''-use_input_nodata'', ''-fixed-buf-val'', ''-srcband'', ''-dstband'']"

definition known_flags :: "string list" where
  "known_flags = ''--help'' # value_flags @ [''-q'', ''-quiet'']"

definition unrecognized_option :: "string \<Rightarrow> bool" where
  "unrecognized_option arg = (arg \<notin> set known_flags \<and> (case arg of [] \<Rightarrow> False | c # _ \<Rightarrow> c = CHR ''-''))"

definition positional :: "string \<Rightarrow> bool" where
  "positional arg = (case arg of [] \<Rightarrow> False | c # _ \<Rightarrow> c \<noteq> CHR ''-'')"

definition alg_flags :: "(string \<times> string) list" where
  "alg_flags =
     [(''-values'', ''VALUES=''), (''-distunits'', ''DISTUNITS=''), (''-maxdist'', ''MAXDIST=''),
      (''-nodata'', ''NODATA=''), (''-use_input_nodata'', ''USE_INPUT_NODATA=''),
      (''-fixed-buf-val'', ''FIXED_BUF_VAL='')]"

definition alg_option_of :: "string \<Rightarrow> string \<Rightarrow> string list" where
  "alg_option_of flag v = (case map_of alg_flags flag of None \<Rightarrow> [] | Some key \<Rightarrow> [key @ v])"

fun alg_option_strings :: "string list \<Rightarrow> string list" where
  "alg_option_strings (a # v # rest) =
     (if a \<in> set value_flags then alg_option_of a v @ alg_option_strings rest
      else alg_option_strings (v # rest))"
| "alg_option_strings [a] = []"
| "alg_option_strings [] = []"

fun quiet_given :: "string list \<Rightarrow> bool" where
  "quiet_given (a # v # rest) =
     (if a \<in> set value_flags then quiet_given rest
      else a = ''-q'' \<or> a = ''-quiet'' \<or> quiet_given (v # rest))"
| "quiet_given [a] = (a = ''-q'' \<or> a = ''-quiet'')"
| "quiet_given [] = False"

section \<open>samples/vec\_tr.py\<close>

subsection \<open>Geometries\<close>

text \<open>
  A vertex is the triple that \<^verbatim>\<open>GetX\<close>, \<^verbatim>\<open>GetY\<close> and \<^verbatim>\<open>GetZ\<close> read and
  \<^verbatim>\<open>SetPoint\<close> writes. OGR hands out C doubles; the coordinate type is left open here,
  and \<open>+\<close> is the addition of that type.
\<close>

type_synonym 'a point = "'a \<times> 'a \<times> 'a"

definition TransformPoint :: "'a::numeral point \<Rightarrow> 'a point" where
  "TransformPoint xyz =
     (let x = fst xyz; y = fst (snd xyz); z = snd (snd xyz);
          x = x + 1000
      in (x, y, z))"

text \<open>
  An OGR geometry as \<^verbatim>\<open>WalkAndTransform\<close> sees it: its own points
  (\<^verbatim>\<open>GetPointCount\<close>, \<^verbatim>\<open>GetX\<close>, ...) and its sub-geometries (\<^verbatim>\<open>GetGeometryCount\<close>,
  \<^verbatim>\<open>GetGeometryRef\<close>). A geometry owns its sub-geometries, so two parts never share
  a vertex and a geometry is a tree.
\<close>

datatype 'a geom = Geom (geom_points: "'a point list") (geom_parts: "'a geom list")

definition GetGeometryCount :: "'a geom \<Rightarrow> nat" where
  "GetGeometryCount g = length (geom_parts g)"

definition GetPointCount :: "'a geom \<Rightarrow> nat" where
  "GetPointCount g = length (geom_points g)"

text \<open>The accessors are only used with \<open>i < GetPointCount g\<close>.\<close>

definition GetX :: "'a geom \<Rightarrow> nat \<Rightarrow> 'a" where
  "GetX g i = fst (geom_points g ! i)"

definition GetY :: "'a geom \<Rightarrow> nat \<Rightarrow> 'a" where
  "GetY g i = fst (snd (geom_points g ! i))"

definition GetZ :: "'a geom \<Rightarrow> nat \<Rightarrow> 'a" where
  "GetZ g i = snd (snd (geom_points g ! i))"

definition SetPoint :: "'a geom \<Rightarrow> nat \<Rightarrow> 'a \<Rightarrow> 'a \<Rightarrow> 'a \<Rightarrow> 'a geom" where
  "SetPoint g i x y z = Geom ((geom_points g)[i := (x, y, z)]) (geom_parts g)"

text \<open>The body of the loop \<^verbatim>\<open>for i in range(geom.GetPointCount())\<close>.\<close>

definition transform_vertex :: "nat \<Rightarrow> 'a::numeral geom \<Rightarrow> 'a geom" where
  "transform_vertex i geom =
     (let xyz = (GetX geom i, GetY geom i, GetZ geom i);
          xyz = TransformPoint xyz
      in SetPoint geom i (fst xyz) (fst (snd xyz)) (snd (snd xyz)))"

text \<open>
  \<^verbatim>\<open>WalkAndTransform\<close> changes the geometry in place and returns it. In the first loop
  the part at index \<open>i\<close> is walked in place, so the list of parts becomes the list of the
  walked parts; the call returns the very object it was given, so
  \<^verbatim>\<open>new_geom is not old_geom\<close> is false and \<^verbatim>\<open>SetGeometryDirectly\<close> is never called.
  The second loop runs over the indices \<open>0, ..., GetPointCount - 1\<close>.
\<close>

fun WalkAndTransform :: "'a::numeral geom \<Rightarrow> 'a geom" where
  "WalkAndTransform (Geom pts parts) =
     (if GetGeometryCount (Geom pts parts) > 0 then
        Geom pts (map WalkAndTransform parts)
      else
        fold transform_vertex [0..<GetPointCount (Geom pts parts)] (Geom pts parts))"

subsection \<open>The datasource and the library\<close>

text \<open>
  What \<^verbatim>\<open>main\<close> reads from the input datasource: for each layer its definition, its
  spatial reference and, in the order \<^verbatim>\<open>GetNextFeature\<close> delivers them, its features; a
  feature has field values, which the script only copies, and a geometry or none.
\<close>

record field_defn =
  fd_name :: string
  fd_type :: int
  fd_width :: int
  fd_precision :: int

record 'a feature =
  feat_fields :: "string list"
  feat_geom :: "'a geom option"

record 'a layer =
  layer_name :: string
  layer_geom_type :: int
  layer_srs :: "string option"
  layer_fields :: "field_defn list"
  layer_features :: "'a feature list"

record 'a datasource =
  ds_layers :: "'a layer list"

datatype ogr_handle = Handle nat

text \<open>The effects of a run of vec\_tr.py: what it prints and the calls that change files.\<close>

datatype 'a ogr_event =
    Print string
  | Call_DeleteDataSource ogr_handle string
  | Call_CreateDataSource ogr_handle string
  | Call_CreateLayer ogr_handle string int "string option"
  | Call_CreateField ogr_handle field_defn
  | Call_CreateFeature ogr_handle "'a feature"
  | Call_Destroy_shp_ds
  | Call_Destroy_in_ds

text \<open>
  The behaviour of the library during one run. The outcome of \<^verbatim>\<open>CreateField\<close> and of
  \<^verbatim>\<open>CreateFeature\<close> may differ from one pass of a loop to the next, so they take the
  number of the pass.
\<close>

record 'a ogr_env =
  ogr_Open :: "string \<Rightarrow> exn + 'a datasource option"
  ogr_GetDriverByName :: "string \<Rightarrow> exn + ogr_handle option"
  DeleteDataSource :: "ogr_handle \<Rightarrow> string \<Rightarrow> exn option"
  CreateDataSource :: "ogr_handle \<Rightarrow> string \<Rightarrow> exn + ogr_handle option"
  CreateLayer :: "ogr_handle \<Rightarrow> string \<Rightarrow> int \<Rightarrow> string option \<Rightarrow> exn + ogr_handle option"
  CreateField :: "nat \<Rightarrow> ogr_handle \<Rightarrow> field_defn \<Rightarrow> exn option"
  CreateFeature :: "nat \<Rightarrow> ogr_handle \<Rightarrow> 'a feature \<Rightarrow> exn option"

subsection \<open>main of vec\_tr.py\<close>

definition vec_tr_Usage :: "('a ogr_event, int) run" where
  "vec_tr_Usage =
     and_then (emit (Print ''Usage: vec_tr.py infile outfile [layer]'')) (\<lambda>_.
     and_then (emit (Print '''')) (\<lambda>_.
     ret 2))"

text \<open>The three locals that the loop \<^verbatim>\<open>for arg in argv[1:]\<close> fills.\<close>

record vec_tr_args =
  infile :: "string option"
  outfile :: "string option"
  arg_layer_name :: "string option"

text \<open>The loop over \<^verbatim>\<open>argv[1:]\<close>; \<^verbatim>\<open>None\<close> stands for \<^verbatim>\<open>return Usage()\<close>.\<close>

fun vec_tr_arg_loop :: "string list \<Rightarrow> vec_tr_args \<Rightarrow> vec_tr_args option" where
  "vec_tr_arg_loop [] st = Some st"
| "vec_tr_arg_loop (arg # rest) st =
     (if infile st = None then vec_tr_arg_loop rest (st\<lparr>infile := Some arg\<rparr>)
      else if outfile st = None then vec_tr_arg_loop rest (st\<lparr>outfile := Some arg\<rparr>)
      else if arg_layer_name st = None then
        vec_tr_arg_loop rest (st\<lparr>arg_layer_name := Some arg\<rparr>)
      else None)"

text \<open>\<^verbatim>\<open>in_ds.GetLayerByName(layer_name)\<close> and \<^verbatim>\<open>in_ds.GetLayer(0)\<close>.\<close>

definition GetLayerByName :: "'a datasource \<Rightarrow> string \<Rightarrow> 'a layer option" where
  "GetLayerByName ds n = find (\<lambda>l. layer_name l = n) (ds_layers ds)"

definition GetLayer0 :: "'a datasource \<Rightarrow> 'a layer option" where
  "GetLayer0 ds = (case ds_layers ds of [] \<Rightarrow> None | l # _ \<Rightarrow> Some l)"

text \<open>
  The loop \<^verbatim>\<open>for fld_index in range(in_field_count)\<close> over the field definitions still to
  copy, \<open>fld_index\<close> being the index of the first of them.
\<close>

fun field_loop ::
  "'a ogr_env \<Rightarrow> ogr_handle option \<Rightarrow> nat \<Rightarrow> field_defn list \<Rightarrow> ('a ogr_event, unit) run" where
  "field_loop env shp_layer fld_index [] = ret ()"
| "field_loop env shp_layer fld_index (src_fd # rest) =
     (let fd = \<lparr> fd_name = fd_name src_fd, fd_type = fd_type src_fd,
                 fd_width = fd_width src_fd, fd_precision = fd_precision src_fd \<rparr> in
      and_then (attr_of shp_layer) (\<lambda>lyr.
      and_then (emit (Call_CreateField lyr fd)) (\<lambda>_.
      and_then (lib_unit (CreateField env fld_index lyr fd)) (\<lambda>_.
      field_loop env shp_layer (fld_index + 1) rest))))"

text \<open>
  The loop \<^verbatim>\<open>while in_feat is not None\<close> over the features that \<^verbatim>\<open>GetNextFeature\<close>
  still has to deliver; \<open>k\<close> counts the features already written. \<^verbatim>\<open>Clone\<close> copies the
  geometry, so the input feature keeps its own; \<^verbatim>\<open>SetFrom\<close> copies the field values.
\<close>

fun feature_loop ::
  "'a::numeral ogr_env \<Rightarrow> ogr_handle option \<Rightarrow> nat \<Rightarrow> 'a feature list
     \<Rightarrow> ('a ogr_event, unit) run" where
  "feature_loop env shp_layer k [] = ret ()"
| "feature_loop env shp_layer k (in_feat # rest) =
     and_then (attr_of (feat_geom in_feat)) (\<lambda>geom.
     let geom = WalkAndTransform geom in
     and_then (attr_of shp_layer) (\<lambda>lyr.
     let out_feat = \<lparr> feat_fields = feat_fields in_feat, feat_geom = Some geom \<rparr> in
     and_then (emit (Call_CreateFeature lyr out_feat)) (\<lambda>_.
     and_then (lib_unit (CreateFeature env k lyr out_feat)) (\<lambda>_.
     feature_loop env shp_layer (k + 1) rest))))"

definition vec_tr_main :: "'a::numeral ogr_env \<Rightarrow> string list \<Rightarrow> ('a ogr_event, int) run" where
  "vec_tr_main env argv =
     (case vec_tr_arg_loop (drop 1 argv)
             \<lparr> infile = None, outfile = None, arg_layer_name = None \<rparr> of
        None \<Rightarrow> vec_tr_Usage
      | Some args \<Rightarrow>
         (case (infile args, outfile args) of
            (Some in_name, Some out_name) \<Rightarrow>
              and_then (lib (ogr_Open env in_name)) (\<lambda>in_ref.
              and_then (attr_of in_ref) (\<lambda>in_ds.
              and_then (attr_of (case arg_layer_name args of
                                   Some n \<Rightarrow> GetLayerByName in_ds n
                                 | None \<Rightarrow> GetLayer0 in_ds)) (\<lambda>in_layer.
              and_then (lib (ogr_GetDriverByName env ''ESRI Shapefile'')) (\<lambda>drv_ref.
              and_then (attr_of drv_ref) (\<lambda>shp_driver.
              and_then (emit (Call_DeleteDataSource shp_driver out_name)) (\<lambda>_.
              and_then (lib_unit (DeleteDataSource env shp_driver out_name)) (\<lambda>_.
              and_then (emit (Call_CreateDataSource shp_driver out_name)) (\<lambda>_.
              and_then (lib (CreateDataSource env shp_driver out_name)) (\<lambda>shp_ref.
              and_then (attr_of shp_ref) (\<lambda>shp_ds.
              and_then (emit (Call_CreateLayer shp_ds (layer_name in_layer)
                                (layer_geom_type in_layer) (layer_srs in_layer))) (\<lambda>_.
              and_then (lib (CreateLayer env shp_ds (layer_name in_layer)
                                (layer_geom_type in_layer) (layer_srs in_layer))) (\<lambda>shp_layer.
              and_then (field_loop env shp_layer 0 (layer_fields in_layer)) (\<lambda>_.
              and_then (feature_loop env shp_layer 0 (layer_features in_layer)) (\<lambda>_.
              and_then (emit Call_Destroy_shp_ds) (\<lambda>_.
              and_then (emit Call_Destroy_in_ds) (\<lambda>_.
              ret 0))))))))))))))))
          | _ \<Rightarrow> vec_tr_Usage))"

text \<open>A library for concrete runs of vec\_tr.py: one layer, every call succeeds.\<close>

definition demo_layer :: "int layer" where
  "demo_layer =
     \<lparr> layer_name = ''roads'', layer_geom_type = 2, layer_srs = None,
       layer_fields = [\<lparr> fd_name = ''id'', fd_type = 0, fd_width = 8, fd_precision = 0 \<rparr>],
       layer_features =
         [\<lparr> feat_fields = [''1''], feat_geom = Some (Geom [(0, 0, 0), (1, 2, 3)] []) \<rparr>,
          \<lparr> feat_fields = [''2''],
            feat_geom = Some (Geom [] [Geom [(5, 6, 7)] [], Geom [] []]) \<rparr>] \<rparr>"

definition demo_ogr :: "int ogr_env" where
  "demo_ogr =
     \<lparr> ogr_Open = (\<lambda>f. Inr (Some \<lparr> ds_layers = [demo_layer] \<rparr>)),
       ogr_GetDriverByName = (\<lambda>n. Inr (Some (Handle 0))),
       DeleteDataSource = (\<lambda>d f. None),
       CreateDataSource = (\<lambda>d f. Inr (Some (Handle 1))),
       CreateLayer = (\<lambda>d n t s. Inr (Some (Handle 2))),
       CreateField = (\<lambda>i l fd. None),
       CreateFeature = (\<lambda>k l f. None) \<rparr>"

text \<open>The same library, except that writing the second feature fails.\<close>

definition failing_ogr :: "int ogr_env" where
  "failing_ogr =
     demo_ogr\<lparr> CreateFeature := (\<lambda>k l f. if k = 1 then Some (RuntimeError ''disk full'')
                                          else None) \<rparr>"

subsection \<open>Vertices, shape and written features\<close>

text \<open>All vertices of a geometry: its own points, then those of its parts.\<close>

fun vertices :: "'a geom \<Rightarrow> 'a point list" where
  "vertices (Geom pts parts) = pts @ concat (map vertices parts)"

text \<open>The vertices of the leaf geometries, the geometries with no sub-geometries.\<close>

fun leaf_vertices :: "'a geom \<Rightarrow> 'a point list" where
  "leaf_vertices (Geom pts parts) =
     (if parts = [] then pts else concat (map leaf_vertices parts))"

text \<open>The structure of a geometry: at every node the point count and the parts.\<close>

datatype shape = Shape nat "shape list"

fun shape_of :: "'a geom \<Rightarrow> shape" where
  "shape_of (Geom pts parts) = Shape (length pts) (map shape_of parts)"

text \<open>The features handed to \<^verbatim>\<open>CreateFeature\<close> in a run, in order.\<close>

fun created_features :: "'a ogr_event list \<Rightarrow> 'a feature list" where
  "created_features [] = []"
| "created_features (Call_CreateFeature lyr f # evs) = f # created_features evs"
| "created_features (ev # evs) = created_features evs"

text \<open>The input layer that a run with these arguments reads, if it gets that far.\<close>

definition in_layer_of :: "'a ogr_env \<Rightarrow> string list \<Rightarrow> 'a layer option" where
  "in_layer_of env argv =
     (case vec_tr_arg_loop (drop 1 argv)
             \<lparr> infile = None, outfile = None, arg_layer_name = None \<rparr> of
        None \<Rightarrow> None
      | Some args \<Rightarrow>
         (case (infile args, outfile args) of
            (Some in_name, Some out_name) \<Rightarrow>
              (case ogr_Open env in_name of
                 Inr (Some in_ds) \<Rightarrow>
                   (case arg_layer_name args of
                      Some n \<Rightarrow> GetLayerByName in_ds n
                    | None \<Rightarrow> GetLayer0 in_ds)
               | _ \<Rightarrow> None)
          | _ \<Rightarrow> None))"

text \<open>The output file name of a run: the second argument.\<close>

definition outfile_of :: "string list \<Rightarrow> string option" where
  "outfile_of argv =
     (case vec_tr_arg_loop (drop 1 argv)
             \<lparr> infile = None, outfile = None, arg_layer_name = None \<rparr> of
        None \<Rightarrow> None
      | Some args \<Rightarrow> outfile args)"

text \<open>
  In OGR the vertices of a geometry that has sub-geometries belong to the sub-geometries:
  a polygon or a collection has no points of its own. \<open>well_formed\<close> says so at every
  level of the tree.
\<close>

fun well_formed :: "'a geom \<Rightarrow> bool" where
  "well_formed (Geom pts parts) = ((parts = [] \<or> pts = []) \<and> list_all well_formed parts)"

section \<open>The proximity engine behind ComputeProximity\<close>

text \<open>
  gdal\_proximity.py hands the two bands and the option list to
  \<^verbatim>\<open>gdal.ComputeProximity\<close>. The engine itself is part of the library and not of the
  two scripts; every definition of this section is modelled from the specification of
  the engine. Cell values are integers; distances and output values are real numbers.
\<close>

subsection \<open>Data model\<close>

text \<open>Modelled from the spec: the error taxonomy of the engine (section 7).\<close>

datatype engine_error = DimensionMismatch | InvalidOption | IOFailure | Cancelled

text \<open>Modelled from the spec: the distance unit mode (section 3).\<close>

datatype dist_units = PIXEL | GEO

text \<open>
  Modelled from the spec: the algorithm options (sections 3 and 6), as parsed; an option
  string that does not parse is rejected with \<open>InvalidOption\<close> before the engine starts.
  An empty \<open>VALUES\<close> stands for no target values given.
\<close>

record alg_opts =
  VALUES :: "int list"
  DISTUNITS :: dist_units
  MAXDIST :: "real option"
  NODATA :: "real option"
  USE_INPUT_NODATA :: bool
  FIXED_BUF_VAL :: "real option"

text \<open>
  Modelled from the spec: the input band (section 3), a grid of width \<open>W\<close> and height
  \<open>H\<close> with an optional no-data value, read row by row; a read may fail. The pixel size
  comes from the georeferencing of the caller.
\<close>

record in_band =
  in_width :: nat
  in_height :: nat
  in_nodata :: "int option"
  pixel_size :: real
  read_row :: "nat \<Rightarrow> int list option"

text \<open>
  Modelled from the spec: the output band (section 3), a grid of the same size that the
  engine overwrites; \<open>background\<close> is the no-data value of the band, used when \<open>NODATA\<close>
  is not given; a write may fail.
\<close>

record out_band =
  out_width :: nat
  out_height :: nat
  background :: real
  write_ok :: "nat \<Rightarrow> bool"
  out_cells :: "real list list"

text \<open>
  Modelled from the spec: the neighbour cost table of the two sweeps, which section 9
  leaves open: the cost of a step by an offset \<open>(dx, dy)\<close>.
\<close>

type_synonym cost_table = "int \<times> int \<Rightarrow> real"

subsection \<open>Sources\<close>

text \<open>Modelled from the spec: a cell value is the no-data value of the input.\<close>

definition is_nodata :: "in_band \<Rightarrow> int \<Rightarrow> bool" where
  "is_nodata inp v = (in_nodata inp = Some v)"

text \<open>
  Modelled from the spec: the target set (section 3): the given values, or, if none is
  given, every value that is neither zero nor no-data.
\<close>

definition in_target_set :: "alg_opts \<Rightarrow> in_band \<Rightarrow> int \<Rightarrow> bool" where
  "in_target_set opts inp v =
     (if VALUES opts = [] then v \<noteq> 0 \<and> \<not> is_nodata inp v else v \<in> set (VALUES opts))"

text \<open>
  Modelled from the spec: with \<open>USE_INPUT_NODATA\<close>, input no-data cells are always
  excluded as sources and always receive no-data in the output (section 3).
\<close>

definition excluded :: "alg_opts \<Rightarrow> in_band \<Rightarrow> int \<Rightarrow> bool" where
  "excluded opts inp v = (USE_INPUT_NODATA opts \<and> is_nodata inp v)"

text \<open>Modelled from the spec: a source is a cell of the target set that is not excluded.\<close>

definition is_source :: "alg_opts \<Rightarrow> in_band \<Rightarrow> int \<Rightarrow> bool" where
  "is_source opts inp v = (in_target_set opts inp v \<and> \<not> excluded opts inp v)"

subsection \<open>The two sweeps\<close>

text \<open>Modelled from the spec: the value of the cell in column \<open>x\<close> of row \<open>y\<close>.\<close>

definition cell_value :: "int list list \<Rightarrow> int \<times> int \<Rightarrow> int" where
  "cell_value rows c = rows ! nat (snd c) ! nat (fst c)"

text \<open>
  Modelled from the spec: the cells in the order of the forward sweep, top to bottom and
  left to right.
\<close>

definition cells_of :: "nat \<Rightarrow> nat \<Rightarrow> (int \<times> int) list" where
  "cells_of w h = concat (map (\<lambda>y. map (\<lambda>x. (int x, int y)) [0..<w]) [0..<h])"

text \<open>
  Modelled from the spec: the neighbours that a sweep has already visited when it
  reaches a cell: in the forward sweep the cell to the left and the three cells of the
  row above, in the backward sweep their mirror images.
\<close>

definition forward_offsets :: "(int \<times> int) list" where
  "forward_offsets = [(-1, 0), (-1, -1), (0, -1), (1, -1)]"

text \<open>Modelled from the spec: the offsets of the backward sweep, the forward ones mirrored.\<close>

definition backward_offsets :: "(int \<times> int) list" where
  "backward_offsets = [(1, 0), (1, 1), (0, 1), (-1, 1)]"

text \<open>
  Modelled from the spec: one step of a sweep (section 4.1). \<open>d\<close> holds the tentative
  distance of the cells that have one. A source cell gets distance 0 at once; any other
  cell takes the least of its own tentative distance and, for each visited neighbour
  with a tentative distance, that distance plus the cost of the step.
\<close>

definition candidates ::
  "cost_table \<Rightarrow> (int \<times> int) list \<Rightarrow> (int \<times> int \<rightharpoonup> real) \<Rightarrow> int \<times> int \<Rightarrow> real list" where
  "candidates cost offs d c =
     (case d c of None \<Rightarrow> [] | Some v \<Rightarrow> [v]) @
     concat (map (\<lambda>off. case d (fst c + fst off, snd c + snd off) of
                           None \<Rightarrow> []
                         | Some v \<Rightarrow> [v + cost off]) offs)"

text \<open>Modelled from the spec: the update of one cell in a sweep, as described above.\<close>

definition relax ::
  "alg_opts \<Rightarrow> in_band \<Rightarrow> int list list \<Rightarrow> cost_table \<Rightarrow> (int \<times> int) list
     \<Rightarrow> int \<times> int \<Rightarrow> (int \<times> int \<rightharpoonup> real) \<Rightarrow> (int \<times> int \<rightharpoonup> real)" where
  "relax opts inp rows cost offs c d =
     (if is_source opts inp (cell_value rows c) then d(c \<mapsto> 0)
      else (case candidates cost offs d c of
              [] \<Rightarrow> d
            | v # vs \<Rightarrow> d(c \<mapsto> fold min vs v)))"

text \<open>
  Modelled from the spec: the forward sweep followed by the backward sweep over the
  whole grid held in memory.
\<close>

definition sweeps ::
  "alg_opts \<Rightarrow> in_band \<Rightarrow> int list list \<Rightarrow> cost_table \<Rightarrow> (int \<times> int \<rightharpoonup> real)" where
  "sweeps opts inp rows cost =
     (let cells = cells_of (in_width inp) (in_height inp);
          d1 = fold (relax opts inp rows cost forward_offsets) cells Map.empty
      in fold (relax opts inp rows cost backward_offsets) (rev cells) d1)"

subsection \<open>Finalising a cell\<close>

text \<open>Modelled from the spec: the no-data value written to the output.\<close>

definition sentinel :: "alg_opts \<Rightarrow> out_band \<Rightarrow> real" where
  "sentinel opts out = (case NODATA opts of Some v \<Rightarrow> v | None \<Rightarrow> background out)"

text \<open>Modelled from the spec: a distance in pixels in the requested unit.\<close>

definition reported :: "alg_opts \<Rightarrow> in_band \<Rightarrow> real \<Rightarrow> real" where
  "reported opts inp px =
     (case DISTUNITS opts of PIXEL \<Rightarrow> px | GEO \<Rightarrow> px * pixel_size inp)"

text \<open>Modelled from the spec: a reported distance does not exceed \<open>MAXDIST\<close>, if one is given.\<close>

definition within_maxdist :: "alg_opts \<Rightarrow> real \<Rightarrow> bool" where
  "within_maxdist opts r = (case MAXDIST opts of None \<Rightarrow> True | Some m \<Rightarrow> r \<le> m)"

text \<open>
  Modelled from the spec: the result of section 4.1 for one cell with input value \<open>v\<close>
  and tentative distance \<open>tentative\<close>: the no-data value if the input cell is no-data and
  \<open>USE_INPUT_NODATA\<close> is set, or if no source lies within \<open>MAXDIST\<close>; else
  \<open>FIXED_BUF_VAL\<close> if it is configured; else the distance in the requested unit.
\<close>

definition finalize ::
  "alg_opts \<Rightarrow> in_band \<Rightarrow> out_band \<Rightarrow> int \<Rightarrow> real option \<Rightarrow> real" where
  "finalize opts inp out v tentative =
     (if excluded opts inp v then sentinel opts out
      else (case tentative of
              None \<Rightarrow> sentinel opts out
            | Some dv \<Rightarrow>
               if \<not> within_maxdist opts (reported opts inp dv) then sentinel opts out
               else (case FIXED_BUF_VAL opts of
                       Some b \<Rightarrow> b
                     | None \<Rightarrow> reported opts inp dv)))"

subsection \<open>The engine\<close>

text \<open>
  Modelled from the spec: reading the input, all rows or \<open>IOFailure\<close>; a row of the
  wrong length counts as a failed read.
\<close>

definition read_rows :: "in_band \<Rightarrow> engine_error + int list list" where
  "read_rows inp =
     (let rs = map (read_row inp) [0..<in_height inp] in
      if list_all (\<lambda>r. case r of None \<Rightarrow> False | Some row \<Rightarrow> length row = in_width inp) rs
      then Inr (map the rs) else Inl IOFailure)"

text \<open>
  Modelled from the spec: the progress sink, asked with the fraction done after each
  sweep; it answers whether the run is to be cancelled.
\<close>

definition cancel_requested :: "(real \<Rightarrow> bool) option \<Rightarrow> bool" where
  "cancel_requested sink = (case sink of None \<Rightarrow> False | Some f \<Rightarrow> f (1 / 2) \<or> f 1)"

text \<open>
  Modelled from the spec: \<open>computeProximity(input, output, options, progress)\<close> of section
  4.1. The bands must agree in size; the input is read; the two sweeps run; every output
  cell is written once, from the input value and the tentative distance of the cell, and
  the old content of the output is never read. On an error there is no result.
\<close>

definition computeProximity ::
  "cost_table \<Rightarrow> in_band \<Rightarrow> out_band \<Rightarrow> alg_opts \<Rightarrow> (real \<Rightarrow> bool) option
     \<Rightarrow> engine_error + out_band" where
  "computeProximity cost inp out opts sink =
     (if in_width inp \<noteq> out_width out \<or> in_height inp \<noteq> out_height out then
        Inl DimensionMismatch
      else
        (case read_rows inp of
           Inl e \<Rightarrow> Inl e
         | Inr rows \<Rightarrow>
            if cancel_requested sink then Inl Cancelled
            else if \<not> list_all (write_ok out) [0..<out_height out] then Inl IOFailure
            else
              (let d = sweeps opts inp rows cost in
               Inr (out\<lparr>out_cells :=
                      map (\<lambda>y. map (\<lambda>x. finalize opts inp out
                                            (cell_value rows (int x, int y))
                                            (d (int x, int y)))
                                   [0..<in_width inp])
                          [0..<in_height inp]\<rparr>))))"

text \<open>
  Modelled from the spec: the scenario grids of section 8: a square grid with the value
  1 in the top left corner and 0 elsewhere, a fresh output band, and a cost table with
  cost 1 for every step.
\<close>

definition corner_band :: "nat \<Rightarrow> in_band" where
  "corner_band n =
     \<lparr> in_width = n, in_height = n, in_nodata = None, pixel_size = 1,
       read_row = (\<lambda>y. if y < n then Some (map (\<lambda>x. if x = 0 \<and> y = 0 then 1 else 0) [0..<n])
                        else None) \<rparr>"

text \<open>Modelled from the spec: a fresh square output band filled with its no-data value.\<close>

definition fresh_band :: "nat \<Rightarrow> real \<Rightarrow> out_band" where
  "fresh_band n bg =
     \<lparr> out_width = n, out_height = n, background = bg, write_ok = (\<lambda>y. True),
       out_cells = replicate n (replicate n bg) \<rparr>"

text \<open>Modelled from the spec: a cost table for the scenarios, every step costing 1.\<close>

definition unit_cost :: cost_table where
  "unit_cost = (\<lambda>off. 1)"

text \<open>Modelled from the spec: the options of the scenarios, \<open>VALUES=1\<close> and nothing else.\<close>

definition plain_opts :: alg_opts where
  "plain_opts =
     \<lparr> VALUES = [1], DISTUNITS = PIXEL, MAXDIST = None, NODATA = None,
       USE_INPUT_NODATA = False, FIXED_BUF_VAL = None \<rparr>"

text \<open>Modelled from the spec: the output raster of a run, empty when the run fails.\<close>

definition output_of :: "engine_error + out_band \<Rightarrow> real list list" where
  "output_of r = (case r of Inl e \<Rightarrow> [] | Inr b \<Rightarrow> out_cells b)"

section \<open>Properties of gdal\_proximity.py\<close>

subsection \<open>One argument at a time\<close>

lemma parse_arg_cong:
  "xs ! i = zs ! i \<Longrightarrow> item xs (i + 1) = item zs (i + 1) \<Longrightarrow>
   parse_arg env xs i st = parse_arg env zs i st"
  by (simp add: parse_arg_def with_value_def Let_def)

lemma parse_arg_no_value:
  "argv ! i \<in> set value_flags \<Longrightarrow> item argv (i + 1) = Inl e \<Longrightarrow>
   parse_arg env argv i st = Inl e"
  by (auto simp: value_flags_def parse_arg_def with_value_def Let_def)

lemma parse_arg_plain:
  "xs ! i \<notin> set value_flags \<Longrightarrow> xs ! i = zs ! i \<Longrightarrow>
   parse_arg env xs i st = parse_arg env zs i st"
  by (simp add: value_flags_def parse_arg_def Let_def)

lemma parse_arg_append:
  assumes lt: "i < length xs" and r: "parse_arg env xs i st = Inr r"
  shows "parse_arg env (xs @ ys) i st = Inr r"
proof -
  have e: "xs ! i = (xs @ ys) ! i" using lt by (simp add: nth_append)
  show ?thesis
  proof (cases "xs ! i \<in> set value_flags")
    case False
    then show ?thesis using parse_arg_plain [OF False e] r by simp
  next
    case True
    have "i + 1 < length xs"
    proof (rule ccontr)
      assume "\<not> i + 1 < length xs"
      then have "item xs (i + 1) = Inl IndexError" by (simp add: item_def)
      from parse_arg_no_value [OF True this] r show False by simp
    qed
    then have "item xs (i + 1) = item (xs @ ys) (i + 1)"
      by (simp add: item_def nth_append)
    from parse_arg_cong [OF e this] r show ?thesis by simp
  qed
qed

lemma parse_arg_Next_bound:
  "parse_arg env argv i st = Inr (Next j st') \<Longrightarrow> i < length argv \<Longrightarrow> j < length argv"
  by (auto simp: parse_arg_def with_value_def item_def Let_def Usage_def
           split: if_splits sum.splits list.splits option.splits)

lemma main_loop_append:
  "main_loop env xs i st = Inr (Parsed st') \<Longrightarrow> i \<le> length xs \<Longrightarrow>
   main_loop env (xs @ ys) i st = main_loop env (xs @ ys) (length xs) st'"
proof (induction env xs i st rule: main_loop.induct)
  case (1 env argv i st)
  show ?case
  proof (cases "i < length argv")
    case True
    from "1.prems"(1) True obtain j s1 where
      step: "parse_arg env argv i st = Inr (Next j s1)"
      and rest: "main_loop env argv (j + 1) s1 = Inr (Parsed st')"
      by (subst (asm) main_loop.simps) (auto split: sum.splits step.splits)
    from step True have j: "j + 1 \<le> length argv"
      using parse_arg_Next_bound by fastforce
    have "main_loop env (argv @ ys) (j + 1) s1 = main_loop env (argv @ ys) (length argv) st'"
      using "1.IH" [OF True step refl rest j] .
    moreover have "parse_arg env (argv @ ys) i st = Inr (Next j s1)"
      using parse_arg_append [OF True step] .
    ultimately show ?thesis
      using True by (subst main_loop.simps) simp
  next
    case False
    with "1.prems" have "i = length argv" by simp
    moreover from "1.prems"(1) False have "st' = st"
      by (subst (asm) main_loop.simps) simp
    ultimately show ?thesis by simp
  qed
qed

lemma parse_arg_value:
  "argv ! i \<in> set value_flags \<Longrightarrow> parse_arg env argv i st = Inr (Next j s1) \<Longrightarrow>
   j = i + 1 \<and> i + 1 < length argv \<and> quiet s1 = quiet st \<and>
   alg_options s1 = alg_options st @ alg_option_of (argv ! i) (argv ! (i + 1))"
  by (auto simp: value_flags_def parse_arg_def with_value_def item_def Let_def
        alg_option_of_def alg_flags_def split: if_splits option.splits)

lemma parse_arg_single:
  "argv ! i \<notin> set value_flags \<Longrightarrow> parse_arg env argv i st = Inr (Next j s1) \<Longrightarrow>
   j = i \<and> alg_options s1 = alg_options st \<and>
   quiet s1 = (quiet st \<or> argv ! i = ''-q'' \<or> argv ! i = ''-quiet'')"
  by (auto simp: value_flags_def parse_arg_def Let_def Usage_def
           split: if_splits list.splits)

lemma parse_arg_unrecognized:
  "unrecognized_option (argv ! i) \<Longrightarrow>
   parse_arg env argv i st =
     Inr (Exit [Stderr (''Unrecognized option : '' @ argv ! i @ [CHR 0x0A]), PrintUsage True] 2)"
  by (auto simp: unrecognized_option_def known_flags_def value_flags_def parse_arg_def Let_def
        Usage_def split: list.splits)

lemma parse_arg_third:
  "positional (argv ! i) \<Longrightarrow> src_filename st \<noteq> None \<Longrightarrow> dst_filename st \<noteq> None \<Longrightarrow>
   parse_arg env argv i st = Inr (Exit [PrintUsage True] 2)"
  by (auto simp: positional_def parse_arg_def Let_def Usage_def split: list.splits)

lemma parse_arg_Exit:
  "parse_arg env argv i st = Inr (Exit evs c) \<Longrightarrow>
   (c = 0 \<or> c = 2) \<and> (\<forall>ev \<in> set evs. (\<exists>b. ev = PrintUsage b) \<or> (\<exists>s. ev = Stderr s))"
  by (auto simp: parse_arg_def with_value_def Let_def Usage_def
           split: if_splits sum.splits list.splits option.splits)

subsection \<open>The whole loop\<close>

lemma alg_option_strings_single:
  "a \<notin> set value_flags \<Longrightarrow> alg_option_strings (a # rest) = alg_option_strings rest"
  by (cases rest) simp_all

lemma quiet_given_single:
  "a \<notin> set value_flags \<Longrightarrow>
   quiet_given (a # rest) = (a = ''-q'' \<or> a = ''-quiet'' \<or> quiet_given rest)"
  by (cases rest) simp_all

lemma main_loop_scan:
  "main_loop env argv i st = Inr (Parsed st') \<Longrightarrow>
   alg_options st' = alg_options st @ alg_option_strings (drop i argv) \<and>
   quiet st' = (quiet st \<or> quiet_given (drop i argv))"
proof (induction env argv i st rule: main_loop.induct)
  case (1 env argv i st)
  show ?case
  proof (cases "i < length argv")
    case False
    with "1.prems" have "st' = st"
      by (subst (asm) main_loop.simps) simp
    with False show ?thesis by simp
  next
    case True
    from "1.prems" True obtain j s1 where
      step: "parse_arg env argv i st = Inr (Next j s1)"
      and rest: "main_loop env argv (j + 1) s1 = Inr (Parsed st')"
      by (subst (asm) main_loop.simps) (auto split: sum.splits step.splits)
    note IH = "1.IH" [OF True step refl rest]
    show ?thesis
    proof (cases "argv ! i \<in> set value_flags")
      case v: True
      from parse_arg_value [OF v step] have j: "j = i + 1" and lt: "i + 1 < length argv"
        and q: "quiet s1 = quiet st"
        and a: "alg_options s1 = alg_options st @ alg_option_of (argv ! i) (argv ! (i + 1))"
        by simp_all
      have "drop i argv = argv ! i # argv ! (i + 1) # drop (i + 2) argv"
        using lt by (simp add: Cons_nth_drop_Suc)
      with IH j q a v show ?thesis by simp
    next
      case v: False
      from parse_arg_single [OF v step] have j: "j = i"
        and a: "alg_options s1 = alg_options st"
        and q: "quiet s1 = (quiet st \<or> argv ! i = ''-q'' \<or> argv ! i = ''-quiet'')"
        by simp_all
      have "drop i argv = argv ! i # drop (i + 1) argv"
        using True by (simp add: Cons_nth_drop_Suc)
      with IH j q a v show ?thesis
        by (auto simp: alg_option_strings_single quiet_given_single)
    qed
  qed
qed

lemma main_loop_Returned:
  "main_loop env argv i st = Inr (Returned evs c) \<Longrightarrow>
   (c = 0 \<or> c = 2) \<and> (\<forall>ev \<in> set evs. (\<exists>b. ev = PrintUsage b) \<or> (\<exists>s. ev = Stderr s))"
proof (induction env argv i st rule: main_loop.induct)
  case (1 env argv i st)
  from "1.prems" have lt: "i < length argv"
    by (subst (asm) main_loop.simps) (simp split: if_splits)
  from "1.prems" lt consider
      (stop) "parse_arg env argv i st = Inr (Exit evs c)"
    | (cont) j s1 where "parse_arg env argv i st = Inr (Next j s1)"
        "main_loop env argv (j + 1) s1 = Inr (Returned evs c)"
    by (subst (asm) main_loop.simps) (auto split: sum.splits step.splits)
  then show ?case
  proof cases
    case stop
    then show ?thesis by (rule parse_arg_Exit)
  next
    case cont
    then show ?thesis using "1.IH" [OF lt cont(1) refl] by simp
  qed
qed

subsection \<open>Runs of gdal\_proximity and main\<close>

lemma and_then_Inr:
  "and_then m f = (tr, Inr y) \<Longrightarrow>
   \<exists>t1 x t2. m = (t1, Inr x) \<and> f x = (t2, Inr y) \<and> tr = t1 @ t2"
  by (auto simp: and_then_def split: prod.splits sum.splits)

lemma and_then_events:
  "ev \<in> set (fst (and_then m f)) \<Longrightarrow>
   ev \<in> set (fst m) \<or> (\<exists>x. snd m = Inr x \<and> ev \<in> set (fst (f x)))"
  by (auto simp: and_then_def split: prod.splits sum.splits)


lemma create_output_Inr:
  assumes "create_output env a src_ds drv_name = (tr, Inr b)"
  shows "\<exists>drv dt dst_ds gt wkt.
     GetDataTypeByName env (creation_type a) = Inr dt \<and>
     drv_Create env drv (dst_filename a) (RasterXSize env src_ds) (RasterYSize env src_ds) 1 dt
       (creation_options a) = Inr (Some dst_ds) \<and>
     GetGeoTransform env src_ds = Inr gt \<and>
     GetProjectionRef env src_ds = Inr wkt \<and>
     GetRasterBand env dst_ds 1 = Inr b \<and>
     tr = [Call_Create drv (dst_filename a) (RasterXSize env src_ds) (RasterYSize env src_ds) 1 dt
             (creation_options a),
           Call_SetGeoTransform dst_ds gt, Call_SetProjection dst_ds wkt]"
  using assms unfolding create_output_def
  by (auto dest!: and_then_Inr
           simp: lib_def lib_unit_def emit_def attr_of_def ret_def raise_def
           split: option.splits)

lemma create_output_events:
  assumes "ev \<in> set (fst (create_output env a src_ds drv_name))"
  shows "(\<exists>drv dt. GetDataTypeByName env (creation_type a) = Inr dt \<and>
            ev = Call_Create drv (dst_filename a) (RasterXSize env src_ds)
                   (RasterYSize env src_ds) 1 dt (creation_options a)) \<or>
         (\<exists>dst_ds gt. GetGeoTransform env src_ds = Inr gt \<and> ev = Call_SetGeoTransform dst_ds gt) \<or>
         (\<exists>dst_ds wkt. GetProjectionRef env src_ds = Inr wkt \<and> ev = Call_SetProjection dst_ds wkt)"
  using assms unfolding create_output_def
  by (auto dest!: and_then_events
           simp: lib_def lib_unit_def emit_def attr_of_def ret_def raise_def
           split: option.splits)


lemma create_output_no_proximity:
  "Call_ComputeProximity sb db opts cb \<notin> set (fst (create_output env a src_ds drv_name))"
  using create_output_events [of "Call_ComputeProximity sb db opts cb" env a src_ds drv_name]
  by auto

lemma proximity_invoked:
  assumes "Call_ComputeProximity sb db opts cb \<in> set (fst (gdal_proximity env a))"
  shows "\<exists>src_ds tr.
     gdal_Open env (src_filename a) GA_ReadOnly = Inr (Some src_ds) \<and>
     GetRasterBand env src_ds (src_band_n a) = Inr sb \<and>
     opts = alg_options a \<and>
     cb = (if quiet a then None else Some TermProgress_nocb) \<and>
     (case open_existing env a of
        (dn, Some (dst_ds, b)) \<Rightarrow> tr = [] \<and> db = b
      | (dn, None) \<Rightarrow> create_output env a src_ds dn = (tr, Inr db)) \<and>
     fst (gdal_proximity env a) = tr @ [Call_ComputeProximity sb db opts cb]"
proof -
  obtain r0 where o: "gdal_Open env (src_filename a) GA_ReadOnly = r0" by simp
  obtain dn dst where e: "open_existing env a = (dn, dst)" by (cases "open_existing env a")
  define ctr where "ctr = (\<lambda>src_ds. fst (create_output env a src_ds dn))"
  define cres where "cres = (\<lambda>src_ds. snd (create_output env a src_ds dn))"
  have c: "\<And>src_ds. create_output env a src_ds dn = (ctr src_ds, cres src_ds)"
    by (simp add: ctr_def cres_def)
  have np: "\<And>src_ds. Call_ComputeProximity sb db opts cb \<notin> set (ctr src_ds)"
    using create_output_no_proximity [of sb db opts cb env a _ dn] by (simp add: c)
  show ?thesis
    using assms np unfolding gdal_proximity_def o e
    by (auto simp: and_then_def lib_def lib_unit_def emit_def ret_def Let_def c
             split: sum.splits option.splits prod.splits if_splits)
qed


lemma proximity_returns_None:
  assumes "Call_ComputeProximity sb db opts cb \<in> set (fst (gdal_proximity env a))"
    and "snd (gdal_proximity env a) = Inr r"
  shows "r = None"
proof -
  obtain dn dst where e: "open_existing env a = (dn, dst)" by (cases "open_existing env a")
  define ctr where "ctr = (\<lambda>src_ds. fst (create_output env a src_ds dn))"
  define cres where "cres = (\<lambda>src_ds. snd (create_output env a src_ds dn))"
  have c: "\<And>src_ds. create_output env a src_ds dn = (ctr src_ds, cres src_ds)"
    by (simp add: ctr_def cres_def)
  show ?thesis
    using assms unfolding gdal_proximity_def e
    by (auto simp: and_then_def lib_def lib_unit_def emit_def ret_def Let_def c
             split: sum.splits option.splits prod.splits if_splits)
qed

lemma source_not_opened:
  "gdal_Open env (src_filename a) GA_ReadOnly = Inr None \<Longrightarrow>
   gdal_proximity env a =
     ([Stdout (''Unable to open '' @ py_str (src_filename a) @ [CHR 0x0A])], Inr (Some 1))"
  by (simp add: gdal_proximity_def and_then_def lib_def emit_def ret_def)

lemma main_invoked:
  assumes G: "GeneralCmdLineProcessor env argv0 = Some argv"
    and ev: "Call_ComputeProximity sb db opts cb \<in> set (fst (main env argv0))"
  shows "\<exists>st. main_loop env argv 1 init_params = Inr (Parsed st) \<and>
           src_filename st \<noteq> None \<and> dst_filename st \<noteq> None \<and>
           main env argv0 = gdal_proximity env st"
proof (cases "main_loop env argv 1 init_params")
  case (Inl e)
  with G ev show ?thesis by (simp add: main_def raise_def)
next
  case (Inr p)
  show ?thesis
  proof (cases p)
    case (Returned evs c)
    with Inr main_loop_Returned have "Call_ComputeProximity sb db opts cb \<notin> set evs"
      by blast
    with G ev Inr Returned show ?thesis by (simp add: main_def)
  next
    case (Parsed st)
    with G ev Inr show ?thesis
      by (auto simp: main_def Usage_def split: if_splits)
  qed
qed

subsection \<open>A value-taking flag as the last argument\<close>

text \<open>
  Claim C10, as amended. When the argument loop reaches a value-taking flag that is the
  last argument, that is, when the arguments before it are consumed by the loop without a
  return or an exception, \<^verbatim>\<open>main\<close> raises \<^verbatim>\<open>IndexError\<close> from \<^verbatim>\<open>argv[i]\<close>
  and does not return the usage code 2. Nothing has been written at that point.
\<close>

theorem trailing_value_flag_IndexError:
  assumes "GeneralCmdLineProcessor env argv0 = Some (pre @ [flag])"
    and "pre \<noteq> []"
    and "main_loop env pre 1 init_params = Inr (Parsed st)"
    and "flag \<in> set value_flags"
  shows "main env argv0 = ([], Inl IndexError)"
proof -
  let ?argv = "pre @ [flag]"
  from assms(2) have le: "1 \<le> length pre" by (cases pre) simp_all
  have "main_loop env ?argv 1 init_params = main_loop env ?argv (length pre) st"
    using main_loop_append [OF assms(3) le] .
  moreover have "parse_arg env ?argv (length pre) st = Inl IndexError"
    using assms(4) by (intro parse_arg_no_value) (simp_all add: item_def)
  ultimately have "main_loop env ?argv 1 init_params = Inl IndexError"
    by (simp add: main_loop.simps [of env ?argv "length pre"])
  with assms(1) show ?thesis by (simp add: main_def raise_def)
qed

theorem trailing_value_flag_IndexError_witness:
  "GeneralCmdLineProcessor demo_env [''gdal_proximity'', ''a.tif'', ''b.tif'', ''-maxdist'']
     = Some ([''gdal_proximity'', ''a.tif'', ''b.tif''] @ [''-maxdist'']) \<and>
   [''gdal_proximity'', ''a.tif'', ''b.tif''] \<noteq> [] \<and>
   main_loop demo_env [''gdal_proximity'', ''a.tif'', ''b.tif''] 1 init_params
     = Inr (Parsed (init_params\<lparr>src_filename := Some ''a.tif'',
                                  dst_filename := Some ''b.tif''\<rparr>)) \<and>
   ''-maxdist'' \<in> set value_flags \<and>
   main demo_env [''gdal_proximity'', ''a.tif'', ''b.tif'', ''-maxdist''] = ([], Inl IndexError)"
proof -
  let ?pre = "[''gdal_proximity'', ''a.tif'', ''b.tif'']"
  let ?st = "init_params\<lparr>src_filename := Some ''a.tif'', dst_filename := Some ''b.tif''\<rparr>"
  have h1: "GeneralCmdLineProcessor demo_env
              [''gdal_proximity'', ''a.tif'', ''b.tif'', ''-maxdist'']
            = Some (?pre @ [''-maxdist''])" by (simp add: demo_env_def)
  have h2: "?pre \<noteq> []" by simp
  have h3: "main_loop demo_env ?pre 1 init_params = Inr (Parsed ?st)"
    by (simp add: main_loop.simps parse_arg_def init_params_def)
  have h4: "''-maxdist'' \<in> set value_flags" by (simp add: value_flags_def)
  from trailing_value_flag_IndexError [OF h1 h2 h3 h4] h1 h2 h3 h4 show ?thesis by blast
qed

text \<open>
  The claim as stated fails where the loop never reaches the final flag as a flag: in
  \<^verbatim>\<open>gdal_proximity -co -of\<close> the final \<^verbatim>\<open>-of\<close> is consumed as the value of
  \<^verbatim>\<open>-co\<close>, and \<^verbatim>\<open>main\<close> returns 2 for the missing source file.
\<close>

theorem trailing_value_flag_counterexample:
  "last [''gdal_proximity'', ''-co'', ''-of''] \<in> set value_flags \<and>
   main demo_env [''gdal_proximity'', ''-co'', ''-of''] =
     ([Stderr (''Missing <srcfile>'' @ [CHR 0x0A]), PrintUsage True], Inr (Some 2))"
  by (simp add: main_def demo_env_def main_loop.simps parse_arg_def with_value_def item_def
        init_params_def Usage_def value_flags_def)

subsection \<open>Exit codes\<close>

text \<open>
  Claim C1, as amended. For every invocation of \<^verbatim>\<open>main\<close> whose arguments pass
  \<^verbatim>\<open>gdal.GeneralCmdLineProcessor\<close>: when \<^verbatim>\<open>ComputeProximity\<close> has been invoked
  and \<^verbatim>\<open>main\<close> returns, the exit status of the script is 0; when the argument loop
  ends with both file names and \<^verbatim>\<open>gdal.Open\<close> yields no dataset for the source,
  \<^verbatim>\<open>main\<close> returns 1; and \<^verbatim>\<open>main\<close> returns 2 when the loop ends without a source
  or without a destination file name, and when the loop reaches an unrecognized option
  that begins with \<^verbatim>\<open>-\<close> or a third positional argument.
\<close>

theorem main_exit_codes:
  assumes G: "GeneralCmdLineProcessor env argv0 = Some argv"
  shows
   "(Call_ComputeProximity sb db opts cb \<in> set (fst (main env argv0)) \<and>
       snd (main env argv0) = Inr r
     \<longrightarrow> exit_status (snd (main env argv0)) = 0) \<and>
    (main_loop env argv 1 init_params = Inr (Parsed st1) \<and>
       src_filename st1 \<noteq> None \<and> dst_filename st1 \<noteq> None \<and>
       gdal_Open env (src_filename st1) GA_ReadOnly = Inr None
     \<longrightarrow> snd (main env argv0) = Inr (Some 1)) \<and>
    (main_loop env argv 1 init_params = Inr (Parsed st2) \<and> src_filename st2 = None
     \<longrightarrow> snd (main env argv0) = Inr (Some 2)) \<and>
    (main_loop env argv 1 init_params = Inr (Parsed st3) \<and> dst_filename st3 = None
     \<longrightarrow> snd (main env argv0) = Inr (Some 2)) \<and>
    (argv = pre @ bad # rest \<and> pre \<noteq> [] \<and>
       main_loop env pre 1 init_params = Inr (Parsed st4) \<and> unrecognized_option bad
     \<longrightarrow> snd (main env argv0) = Inr (Some 2)) \<and>
    (argv = pre' @ third # rest' \<and> pre' \<noteq> [] \<and>
       main_loop env pre' 1 init_params = Inr (Parsed st5) \<and> positional third \<and>
       src_filename st5 \<noteq> None \<and> dst_filename st5 \<noteq> None
     \<longrightarrow> snd (main env argv0) = Inr (Some 2))"
proof (intro conjI impI)
  assume h: "Call_ComputeProximity sb db opts cb \<in> set (fst (main env argv0)) \<and>
       snd (main env argv0) = Inr r"
  from main_invoked [of env argv0 argv sb db opts cb] G h obtain st where
    m: "main env argv0 = gdal_proximity env st" by blast
  with h proximity_returns_None [of sb db opts cb env st r] have "r = None" by simp
  with h show "exit_status (snd (main env argv0)) = 0" by (simp add: exit_status_def)
next
  assume "main_loop env argv 1 init_params = Inr (Parsed st1) \<and>
       src_filename st1 \<noteq> None \<and> dst_filename st1 \<noteq> None \<and>
       gdal_Open env (src_filename st1) GA_ReadOnly = Inr None"
  with G show "snd (main env argv0) = Inr (Some 1)"
    by (auto simp: main_def source_not_opened)
next
  assume "main_loop env argv 1 init_params = Inr (Parsed st2) \<and> src_filename st2 = None"
  with G show "snd (main env argv0) = Inr (Some 2)"
    by (simp add: main_def Usage_def)
next
  assume "main_loop env argv 1 init_params = Inr (Parsed st3) \<and> dst_filename st3 = None"
  with G show "snd (main env argv0) = Inr (Some 2)"
    by (simp add: main_def Usage_def)
next
  assume h: "argv = pre @ bad # rest \<and> pre \<noteq> [] \<and>
       main_loop env pre 1 init_params = Inr (Parsed st4) \<and> unrecognized_option bad"
  then have le: "1 \<le> length pre" by (cases pre) simp_all
  from h have "main_loop env argv 1 init_params = main_loop env argv (length pre) st4"
    using main_loop_append [of env pre 1 init_params st4 "bad # rest"] le by simp
  moreover from h have lt: "length pre < length argv" by simp
  from h have pa: "parse_arg env argv (length pre) st4 =
      Inr (Exit [Stderr (''Unrecognized option : '' @ argv ! length pre @ [CHR 0x0A]),
                 PrintUsage True] 2)"
    by (intro parse_arg_unrecognized) simp
  have "\<exists>evs. main_loop env argv (length pre) st4 = Inr (Returned evs 2)"
    using lt pa by (subst main_loop.simps) simp
  ultimately have "\<exists>evs. main_loop env argv 1 init_params = Inr (Returned evs 2)"
    by simp
  with G show "snd (main env argv0) = Inr (Some 2)"
    by (auto simp: main_def)
next
  assume h: "argv = pre' @ third # rest' \<and> pre' \<noteq> [] \<and>
       main_loop env pre' 1 init_params = Inr (Parsed st5) \<and> positional third \<and>
       src_filename st5 \<noteq> None \<and> dst_filename st5 \<noteq> None"
  then have le: "1 \<le> length pre'" by (cases pre') simp_all
  from h have "main_loop env argv 1 init_params = main_loop env argv (length pre') st5"
    using main_loop_append [of env pre' 1 init_params st5 "third # rest'"] le by simp
  moreover from h have lt: "length pre' < length argv" by simp
  from h have pa: "parse_arg env argv (length pre') st5 = Inr (Exit [PrintUsage True] 2)"
    by (intro parse_arg_third) simp_all
  have "\<exists>evs. main_loop env argv (length pre') st5 = Inr (Returned evs 2)"
    using lt pa by (subst main_loop.simps) simp
  ultimately have "\<exists>evs. main_loop env argv 1 init_params = Inr (Returned evs 2)"
    by simp
  with G show "snd (main env argv0) = Inr (Some 2)"
    by (auto simp: main_def)
qed

theorem main_exit_codes_witness:
  "exit_status (snd (main demo_env [''gdal_proximity'', ''in.tif'', ''out.tif''])) = 0 \<and>
   snd (main no_source_env [''gdal_proximity'', ''in.tif'', ''out.tif'']) = Inr (Some 1) \<and>
   snd (main demo_env [''gdal_proximity'']) = Inr (Some 2) \<and>
   snd (main demo_env [''gdal_proximity'', ''in.tif'']) = Inr (Some 2) \<and>
   snd (main demo_env [''gdal_proximity'', ''in.tif'', ''-bogus'', ''out.tif'']) = Inr (Some 2) \<and>
   snd (main demo_env [''gdal_proximity'', ''in.tif'', ''out.tif'', ''extra'']) = Inr (Some 2)"
proof -
  let ?s1 = "init_params\<lparr>src_filename := Some ''in.tif''\<rparr>"
  let ?s2 = "init_params\<lparr>src_filename := Some ''in.tif'', dst_filename := Some ''out.tif''\<rparr>"
  have g: "\<And>argv. GeneralCmdLineProcessor demo_env argv = Some argv"
    by (simp add: demo_env_def)
  have g': "\<And>argv. GeneralCmdLineProcessor no_source_env argv = Some argv"
    by (simp add: no_source_env_def demo_env_def)
  have p0: "main_loop demo_env [''gdal_proximity''] 1 init_params = Inr (Parsed init_params)"
    by (simp add: main_loop.simps)
  have p1: "main_loop demo_env [''gdal_proximity'', ''in.tif''] 1 init_params = Inr (Parsed ?s1)"
    by (simp add: main_loop.simps parse_arg_def init_params_def)
  have p2: "main_loop demo_env [''gdal_proximity'', ''in.tif'', ''out.tif''] 1 init_params
              = Inr (Parsed ?s2)"
    by (simp add: main_loop.simps parse_arg_def init_params_def)
  have p2': "main_loop no_source_env [''gdal_proximity'', ''in.tif'', ''out.tif''] 1 init_params
              = Inr (Parsed ?s2)"
    by (simp add: main_loop.simps parse_arg_def init_params_def)
  have run: "Call_ComputeProximity (Some (Band 1)) (Some (Band 21)) [] (Some TermProgress_nocb)
       \<in> set (fst (main demo_env [''gdal_proximity'', ''in.tif'', ''out.tif''])) \<and>
     snd (main demo_env [''gdal_proximity'', ''in.tif'', ''out.tif'']) = Inr None"
    by code_simp
  have c1: "exit_status (snd (main demo_env [''gdal_proximity'', ''in.tif'', ''out.tif''])) = 0"
    using main_exit_codes [OF g, THEN conjunct1, rule_format, OF run] .
  have "src_filename ?s2 \<noteq> None \<and> dst_filename ?s2 \<noteq> None \<and>
        gdal_Open no_source_env (src_filename ?s2) GA_ReadOnly = Inr None"
    by (simp add: no_source_env_def demo_env_def init_params_def)
  with p2' have c2: "snd (main no_source_env [''gdal_proximity'', ''in.tif'', ''out.tif''])
                      = Inr (Some 1)"
    using main_exit_codes [OF g', THEN conjunct2, THEN conjunct1, rule_format, of _ ?s2]
    by blast
  have "src_filename init_params = None" by (simp add: init_params_def)
  with p0 have c3: "snd (main demo_env [''gdal_proximity'']) = Inr (Some 2)"
    using main_exit_codes [OF g, THEN conjunct2, THEN conjunct2, THEN conjunct1, rule_format,
        of _ init_params]
    by blast
  have "dst_filename ?s1 = None" by (simp add: init_params_def)
  with p1 have c4: "snd (main demo_env [''gdal_proximity'', ''in.tif'']) = Inr (Some 2)"
    using main_exit_codes [OF g, THEN conjunct2, THEN conjunct2, THEN conjunct2,
        THEN conjunct1, rule_format, of _ ?s1]
    by blast
  have "[''gdal_proximity'', ''in.tif'', ''-bogus'', ''out.tif'']
          = [''gdal_proximity'', ''in.tif''] @ ''-bogus'' # [''out.tif''] \<and>
        [''gdal_proximity'', ''in.tif''] \<noteq> [] \<and> unrecognized_option ''-bogus''"
    by (simp add: unrecognized_option_def known_flags_def value_flags_def)
  with p1 have c5: "snd (main demo_env [''gdal_proximity'', ''in.tif'', ''-bogus'', ''out.tif''])
                     = Inr (Some 2)"
    using main_exit_codes [OF g, THEN conjunct2, THEN conjunct2, THEN conjunct2,
        THEN conjunct2, THEN conjunct1, rule_format,
        of _ "[''gdal_proximity'', ''in.tif'']" "''-bogus''" "[''out.tif'']" ?s1]
    by blast
  have "[''gdal_proximity'', ''in.tif'', ''out.tif'', ''extra'']
          = [''gdal_proximity'', ''in.tif'', ''out.tif''] @ ''extra'' # [] \<and>
        [''gdal_proximity'', ''in.tif'', ''out.tif''] \<noteq> [] \<and> positional ''extra'' \<and>
        src_filename ?s2 \<noteq> None \<and> dst_filename ?s2 \<noteq> None"
    by (simp add: positional_def init_params_def)
  with p2 have c6: "snd (main demo_env [''gdal_proximity'', ''in.tif'', ''out.tif'', ''extra''])
                     = Inr (Some 2)"
    using main_exit_codes [OF g, THEN conjunct2, THEN conjunct2, THEN conjunct2,
        THEN conjunct2, THEN conjunct2, rule_format,
        of _ "[''gdal_proximity'', ''in.tif'', ''out.tif'']" "''extra''" "[]" ?s2]
    by blast
  from c1 c2 c3 c4 c5 c6 show ?thesis by simp
qed

text \<open>
  The claim as stated fails for the value that \<^verbatim>\<open>main\<close> returns on success:
  \<^verbatim>\<open>gdal_proximity\<close> ends without a \<^verbatim>\<open>return\<close> statement, so a successful run
  returns \<^verbatim>\<open>None\<close> and not 0.
\<close>

theorem main_returns_0_counterexample:
  "Call_ComputeProximity (Some (Band 1)) (Some (Band 21)) [] (Some TermProgress_nocb)
     \<in> set (fst (main demo_env [''gdal_proximity'', ''in.tif'', ''out.tif''])) \<and>
   snd (main demo_env [''gdal_proximity'', ''in.tif'', ''out.tif'']) = Inr None \<and>
   snd (main demo_env [''gdal_proximity'', ''in.tif'', ''out.tif'']) \<noteq> Inr (Some 0)"
  by code_simp

subsection \<open>Algorithm options\<close>



subsection \<open>The progress callback\<close>

text \<open>
  Claim C7. Whenever \<^verbatim>\<open>gdal_proximity\<close> invokes \<^verbatim>\<open>ComputeProximity\<close>, the callback is
  \<^verbatim>\<open>None\<close> if \<^verbatim>\<open>quiet\<close> is set and \<^verbatim>\<open>gdal.TermProgress_nocb\<close> otherwise; and in a
  run of \<^verbatim>\<open>main\<close>, \<^verbatim>\<open>quiet\<close> is set exactly when the command line has \<^verbatim>\<open>-q\<close> or
  \<^verbatim>\<open>-quiet\<close> among its options.
\<close>

theorem quiet_selects_callback:
  "(Call_ComputeProximity sb db opts cb \<in> set (fst (gdal_proximity env a)) \<longrightarrow>
      cb = (if quiet a then None else Some TermProgress_nocb)) \<and>
   (GeneralCmdLineProcessor env argv0 = Some argv \<and>
    Call_ComputeProximity sb' db' opts' cb' \<in> set (fst (main env argv0)) \<longrightarrow>
      cb' = (if quiet_given (drop 1 argv) then None else Some TermProgress_nocb))"
proof (intro conjI impI)
  assume "Call_ComputeProximity sb db opts cb \<in> set (fst (gdal_proximity env a))"
  from proximity_invoked [OF this]
  show "cb = (if quiet a then None else Some TermProgress_nocb)" by blast
next
  assume h: "GeneralCmdLineProcessor env argv0 = Some argv \<and>
    Call_ComputeProximity sb' db' opts' cb' \<in> set (fst (main env argv0))"
  from main_invoked [of env argv0 argv sb' db' opts' cb'] h obtain st where
    p: "main_loop env argv 1 init_params = Inr (Parsed st)"
    and m: "main env argv0 = gdal_proximity env st" by blast
  from h m proximity_invoked [of sb' db' opts' cb' env st]
  have "cb' = (if quiet st then None else Some TermProgress_nocb)" by auto
  moreover from main_loop_scan [OF p]
  have "quiet st = quiet_given (drop 1 argv)"
    by (simp add: init_params_def)
  ultimately show "cb' = (if quiet_given (drop 1 argv) then None else Some TermProgress_nocb)"
    by simp
qed

theorem quiet_selects_callback_witness:
  "Call_ComputeProximity (Some (Band 1)) (Some (Band 21)) [] None
     \<in> set (fst (gdal_proximity demo_env
         (init_params\<lparr>src_filename := Some ''in.tif'', dst_filename := Some ''out.tif'',
                       quiet := True\<rparr>))) \<and>
   (None :: callback option) =
     (if quiet (init_params\<lparr>src_filename := Some ''in.tif'', dst_filename := Some ''out.tif'',
                              quiet := True\<rparr>)
      then None else Some TermProgress_nocb) \<and>
   GeneralCmdLineProcessor demo_env [''gdal_proximity'', ''in.tif'', ''out.tif'']
     = Some [''gdal_proximity'', ''in.tif'', ''out.tif''] \<and>
   Call_ComputeProximity (Some (Band 1)) (Some (Band 21)) [] (Some TermProgress_nocb)
     \<in> set (fst (main demo_env [''gdal_proximity'', ''in.tif'', ''out.tif''])) \<and>
   Some TermProgress_nocb =
     (if quiet_given (drop 1 [''gdal_proximity'', ''in.tif'', ''out.tif''])
      then None else Some TermProgress_nocb)"
proof -
  let ?a = "init_params\<lparr>src_filename := Some ''in.tif'', dst_filename := Some ''out.tif'',
                          quiet := True\<rparr>"
  let ?argv = "[''gdal_proximity'', ''in.tif'', ''out.tif'']"
  have h1: "Call_ComputeProximity (Some (Band 1)) (Some (Band 21)) [] None
              \<in> set (fst (gdal_proximity demo_env ?a))"
    by code_simp
  have h2: "GeneralCmdLineProcessor demo_env ?argv = Some ?argv" by (simp add: demo_env_def)
  have h3: "Call_ComputeProximity (Some (Band 1)) (Some (Band 21)) [] (Some TermProgress_nocb)
              \<in> set (fst (main demo_env ?argv))"
    by code_simp
  from quiet_selects_callback [THEN conjunct1, rule_format, OF h1]
  have c1: "(None :: callback option) = (if quiet ?a then None else Some TermProgress_nocb)" .
  from quiet_selects_callback [THEN conjunct2, rule_format, OF conjI [OF h2 h3]]
  have c2: "Some TermProgress_nocb =
     (if quiet_given (drop 1 ?argv) then None else Some TermProgress_nocb)" .
  from h1 c1 h2 h3 c2 show ?thesis by blast
qed

subsection \<open>Creating the destination\<close>

text \<open>
  Claim C3. In every run of \<^verbatim>\<open>gdal_proximity\<close> in which the destination is not opened
  as an existing dataset and \<^verbatim>\<open>ComputeProximity\<close> is invoked, the run has, before that
  call and in this order, created the destination with the source's \<^verbatim>\<open>RasterXSize\<close> and
  \<^verbatim>\<open>RasterYSize\<close>, one band, the data type that \<^verbatim>\<open>gdal.GetDataTypeByName\<close> gives
  for the requested pixel type and the creation options, set on it the geotransform read
  from the source, and set on it the projection read from the source; the destination
  band is band 1 of the created dataset. These four calls are all the effects of the run.
\<close>

theorem created_like_source:
  assumes "snd (open_existing env a) = None"
    and "gdal_Open env (src_filename a) GA_ReadOnly = Inr (Some src_ds)"
    and "Call_ComputeProximity sb db opts cb \<in> set (fst (gdal_proximity env a))"
  shows "\<exists>drv dt dst_ds gt wkt.
     GetDataTypeByName env (creation_type a) = Inr dt \<and>
     drv_Create env drv (dst_filename a) (RasterXSize env src_ds) (RasterYSize env src_ds) 1 dt
       (creation_options a) = Inr (Some dst_ds) \<and>
     GetGeoTransform env src_ds = Inr gt \<and>
     GetProjectionRef env src_ds = Inr wkt \<and>
     GetRasterBand env dst_ds 1 = Inr db \<and>
     fst (gdal_proximity env a) =
       [Call_Create drv (dst_filename a) (RasterXSize env src_ds) (RasterYSize env src_ds) 1 dt
          (creation_options a),
        Call_SetGeoTransform dst_ds gt,
        Call_SetProjection dst_ds wkt,
        Call_ComputeProximity sb db opts cb]"
proof -
  from assms(1) obtain dn where e: "open_existing env a = (dn, None)"
    by (cases "open_existing env a") simp
  from proximity_invoked [OF assms(3)] assms(2) e obtain tr where
    c: "create_output env a src_ds dn = (tr, Inr db)"
    and t: "fst (gdal_proximity env a) = tr @ [Call_ComputeProximity sb db opts cb]"
    by auto
  from create_output_Inr [OF c] t show ?thesis by auto
qed

theorem created_like_source_witness:
  "snd (open_existing demo_env
         (init_params\<lparr>src_filename := Some ''in.tif'', dst_filename := Some ''out.tif''\<rparr>))
     = None \<and>
   gdal_Open demo_env (Some ''in.tif'') GA_ReadOnly = Inr (Some (Dataset 0)) \<and>
   Call_ComputeProximity (Some (Band 1)) (Some (Band 21)) [] (Some TermProgress_nocb)
     \<in> set (fst (gdal_proximity demo_env
         (init_params\<lparr>src_filename := Some ''in.tif'', dst_filename := Some ''out.tif''\<rparr>))) \<and>
   (\<exists>drv.
     fst (gdal_proximity demo_env
         (init_params\<lparr>src_filename := Some ''in.tif'', dst_filename := Some ''out.tif''\<rparr>)) =
     [Call_Create drv (Some ''out.tif'') 40 30 1 6 [],
      Call_SetGeoTransform (Dataset 2) (GeoTransform 7),
      Call_SetProjection (Dataset 2) ''WGS84'',
      Call_ComputeProximity (Some (Band 1)) (Some (Band 21)) [] (Some TermProgress_nocb)])"
proof -
  let ?a = "init_params\<lparr>src_filename := Some ''in.tif'', dst_filename := Some ''out.tif''\<rparr>"
  have h1: "snd (open_existing demo_env ?a) = None"
    by (simp add: open_existing_def demo_env_def init_params_def)
  have h2: "gdal_Open demo_env (src_filename ?a) GA_ReadOnly = Inr (Some (Dataset 0))"
    by (simp add: demo_env_def)
  have h3: "Call_ComputeProximity (Some (Band 1)) (Some (Band 21)) [] (Some TermProgress_nocb)
              \<in> set (fst (gdal_proximity demo_env ?a))"
    by code_simp
  from created_like_source [OF h1 h2 h3] have
    "\<exists>drv. fst (gdal_proximity demo_env ?a) =
       [Call_Create drv (Some ''out.tif'') 40 30 1 6 [],
        Call_SetGeoTransform (Dataset 2) (GeoTransform 7),
        Call_SetProjection (Dataset 2) ''WGS84'',
        Call_ComputeProximity (Some (Band 1)) (Some (Band 21)) [] (Some TermProgress_nocb)]"
    by (auto simp: demo_env_def init_params_def)
  with h1 h2 h3 show ?thesis by simp
qed

section \<open>Properties of vec\_tr.py\<close>

subsection \<open>The two loops of WalkAndTransform\<close>

lemma transform_vertex_Geom:
  "i < length pts \<Longrightarrow>
   transform_vertex i (Geom pts parts) = Geom (pts[i := TransformPoint (pts ! i)]) parts"
  by (simp add: transform_vertex_def SetPoint_def GetX_def GetY_def GetZ_def
        TransformPoint_def Let_def)

lemma points_loop_prefix:
  "n \<le> length pts \<Longrightarrow>
   fold transform_vertex [0..<n] (Geom pts parts)
     = Geom (map TransformPoint (take n pts) @ drop n pts) parts"
proof (induction n)
  case 0
  then show ?case by simp
next
  case (Suc n)
  then have lt: "n < length pts" by simp
  have "(map TransformPoint (take n pts) @ drop n pts)[n := TransformPoint (pts ! n)]
         = map TransformPoint (take (Suc n) pts) @ drop (Suc n) pts"
    using lt by (simp add: take_Suc_conv_app_nth list_update_append
                   Cons_nth_drop_Suc [symmetric])
  moreover have "(map TransformPoint (take n pts) @ drop n pts) ! n = pts ! n"
    using lt by (simp add: nth_append)
  ultimately show ?case
    using Suc lt by (simp add: transform_vertex_Geom)
qed

lemma points_loop:
  "fold transform_vertex [0..<length pts] (Geom pts parts) = Geom (map TransformPoint pts) parts"
  using points_loop_prefix [of "length pts" pts parts] by simp

lemma WalkAndTransform_eq:
  "WalkAndTransform (Geom pts parts) =
     (if parts = [] then Geom (map TransformPoint pts) []
      else Geom pts (map WalkAndTransform parts))"
  by (simp add: GetGeometryCount_def GetPointCount_def points_loop)

lemma shape_of_WalkAndTransform: "shape_of (WalkAndTransform g) = shape_of g"
  by (induction g rule: WalkAndTransform.induct)
     (simp add: WalkAndTransform_eq GetGeometryCount_def del: WalkAndTransform.simps
           cong: map_cong)

lemma snd_TransformPoint: "snd (TransformPoint p) = snd p"
  by (simp add: TransformPoint_def Let_def)

lemma yz_WalkAndTransform:
  "map snd (vertices (WalkAndTransform g)) = map snd (vertices g)"
proof (induction g rule: WalkAndTransform.induct)
  case (1 pts parts)
  show ?case
  proof (cases "parts = []")
    case True
    then show ?thesis
      by (simp add: WalkAndTransform_eq snd_TransformPoint del: WalkAndTransform.simps)
  next
    case False
    then have "\<And>p. p \<in> set parts \<Longrightarrow>
        map snd (vertices (WalkAndTransform p)) = map snd (vertices p)"
      using "1.IH" by (simp add: GetGeometryCount_def)
    with False show ?thesis
      by (simp add: WalkAndTransform_eq map_concat comp_def del: WalkAndTransform.simps
            cong: map_cong)
  qed
qed

lemma leaf_vertices_WalkAndTransform:
  "leaf_vertices (WalkAndTransform g) = map TransformPoint (leaf_vertices g)"
proof (induction g rule: WalkAndTransform.induct)
  case (1 pts parts)
  show ?case
  proof (cases "parts = []")
    case True
    then show ?thesis by (simp add: WalkAndTransform_eq del: WalkAndTransform.simps)
  next
    case False
    then have "\<And>p. p \<in> set parts \<Longrightarrow>
        leaf_vertices (WalkAndTransform p) = map TransformPoint (leaf_vertices p)"
      using "1.IH" by (simp add: GetGeometryCount_def)
    with False show ?thesis
      by (simp add: WalkAndTransform_eq map_concat comp_def del: WalkAndTransform.simps
            cong: map_cong)
  qed
qed

subsection \<open>The loops of main\<close>

lemma created_features_append:
  "created_features (a @ b) = created_features a @ created_features b"
  by (induction a rule: created_features.induct) simp_all

lemma field_loop_created:
  "created_features (fst (field_loop env lyr i fds)) = ([] :: 'a feature list)"
proof (induction fds arbitrary: i)
  case Nil
  then show ?case by (simp add: ret_def)
next
  case (Cons fd fds)
  from Cons.IH [of "i + 1"] show ?case
    by (cases "field_loop env lyr (i + 1) fds")
       (auto simp: and_then_def attr_of_def ret_def raise_def emit_def lib_unit_def Let_def
             split: option.splits prod.splits sum.splits)
qed

lemma feature_loop_created:
  "feature_loop env lyr k feats = (tr, Inr u) \<Longrightarrow>
   map feat_geom (created_features tr)
     = map (\<lambda>f. map_option WalkAndTransform (feat_geom f)) feats"
proof (induction feats arbitrary: k tr)
  case Nil
  then show ?case by (simp add: ret_def)
next
  case (Cons f feats)
  from Cons.prems obtain g l tr' where
    g: "feat_geom f = Some g" and l: "lyr = Some l"
    and rest: "feature_loop env lyr (k + 1) feats = (tr', Inr u)"
    and tr: "tr = Call_CreateFeature l \<lparr> feat_fields = feat_fields f,
                                        feat_geom = Some (WalkAndTransform g) \<rparr> # tr'"
    by (cases "feature_loop env lyr (k + 1) feats")
       (auto simp: and_then_def attr_of_def ret_def raise_def emit_def lib_unit_def Let_def
             split: option.splits prod.splits sum.splits)
  from Cons.IH [OF rest] g tr show ?case by simp
qed

lemma vec_tr_Usage_eq:
  "vec_tr_Usage = ([Print ''Usage: vec_tr.py infile outfile [layer]'', Print []], Inr 2)"
  by (simp add: vec_tr_Usage_def and_then_def emit_def ret_def)

lemma vec_tr_main_success:
  assumes "vec_tr_main env argv = (tr, Inr 0)"
  shows "\<exists>lyr shp_driver out_name shp_ds shp_layer ftr ptr.
     in_layer_of env argv = Some lyr \<and>
     outfile_of argv = Some out_name \<and>
     field_loop env shp_layer 0 (layer_fields lyr) = (ftr, Inr ()) \<and>
     feature_loop env shp_layer 0 (layer_features lyr) = (ptr, Inr ()) \<and>
     tr = [Call_DeleteDataSource shp_driver out_name, Call_CreateDataSource shp_driver out_name,
           Call_CreateLayer shp_ds (layer_name lyr) (layer_geom_type lyr) (layer_srs lyr)]
          @ ftr @ ptr @ [Call_Destroy_shp_ds, Call_Destroy_in_ds]"
  using assms unfolding vec_tr_main_def in_layer_of_def outfile_of_def
  by (auto dest!: and_then_Inr
           simp: vec_tr_Usage_eq lib_def lib_unit_def emit_def attr_of_def ret_def raise_def
           split: option.splits sum.splits)
     blast+

subsection \<open>Sequencing with a known first part\<close>

lemma and_then_emit: "and_then (emit ev) f = (ev # fst (f ()), snd (f ()))"
  by (simp add: and_then_def emit_def split: prod.splits)

lemma and_then_lib_Inr: "and_then (lib (Inr x)) f = f x"
  by (simp add: and_then_def lib_def split: prod.splits)

lemma and_then_attr_Some: "and_then (attr_of (Some x)) f = f x"
  by (simp add: and_then_def attr_of_def ret_def split: prod.splits)

subsection \<open>TransformPoint and the frame of WalkAndTransform\<close>

text \<open>
  Claim C8. \<^verbatim>\<open>TransformPoint\<close> returns \<open>(x + 1000, y, z)\<close>, with the addition of the
  coordinate type; \<^verbatim>\<open>WalkAndTransform\<close> leaves the \<open>y\<close> and \<open>z\<close> of every vertex as they
  were, and the geometry keeps its structure: the same sub-geometries with the same
  point counts at every level.
\<close>

theorem TransformPoint_shifts_x_only:
  "TransformPoint (x, y, z) = (x + 1000, y, z) \<and>
   map snd (vertices (WalkAndTransform g)) = map snd (vertices g) \<and>
   shape_of (WalkAndTransform g) = shape_of g"
  by (simp add: TransformPoint_def Let_def yz_WalkAndTransform shape_of_WalkAndTransform)

subsection \<open>Every vertex is transformed once\<close>

lemma vertices_WalkAndTransform:
  "well_formed g \<Longrightarrow> vertices (WalkAndTransform g) = map TransformPoint (vertices g)"
proof (induction g rule: WalkAndTransform.induct)
  case (1 pts parts)
  show ?case
  proof (cases "parts = []")
    case True
    then show ?thesis by (simp add: WalkAndTransform_eq del: WalkAndTransform.simps)
  next
    case False
    with "1.prems" have e: "pts = []" and w: "\<And>p. p \<in> set parts \<Longrightarrow> well_formed p"
      by (simp_all add: list_all_iff)
    from False have "\<And>p. p \<in> set parts \<Longrightarrow>
        vertices (WalkAndTransform p) = map TransformPoint (vertices p)"
      using "1.IH" w by (simp add: GetGeometryCount_def)
    with False e show ?thesis
      by (simp add: WalkAndTransform_eq map_concat comp_def del: WalkAndTransform.simps
            cong: map_cong)
  qed
qed

text \<open>
  Claim C4. \<^verbatim>\<open>WalkAndTransform\<close> replaces every vertex of every leaf geometry, at any
  depth, by its image under \<^verbatim>\<open>TransformPoint\<close>, once and in place. A geometry of OGR
  holds its vertices in its leaves (it is \<open>well_formed\<close>), so every vertex of the geometry
  is replaced by its image, once. In a run of \<^verbatim>\<open>main\<close> that returns 0, the geometries
  of the features written are, in order, the walked copies of the geometries of the
  features of the input layer, so every vertex of every feature's geometry has been
  transformed exactly once.
\<close>

theorem every_vertex_transformed_once:
  "leaf_vertices (WalkAndTransform g) = map TransformPoint (leaf_vertices g) \<and>
   (well_formed g \<longrightarrow> vertices (WalkAndTransform g) = map TransformPoint (vertices g)) \<and>
   (vec_tr_main env argv = (tr, Inr 0) \<longrightarrow>
      (\<exists>lyr. in_layer_of env argv = Some lyr \<and>
         map feat_geom (created_features tr)
           = map (\<lambda>f. map_option WalkAndTransform (feat_geom f)) (layer_features lyr) \<and>
         ((\<forall>f \<in> set (layer_features lyr). \<forall>h. feat_geom f = Some h \<longrightarrow> well_formed h) \<longrightarrow>
          map (\<lambda>f. map_option vertices (feat_geom f)) (created_features tr)
            = map (\<lambda>f. map_option (\<lambda>h. map TransformPoint (vertices h)) (feat_geom f))
                (layer_features lyr))))"
proof (intro conjI impI)
  show "leaf_vertices (WalkAndTransform g) = map TransformPoint (leaf_vertices g)"
    by (rule leaf_vertices_WalkAndTransform)
next
  assume "well_formed g"
  then show "vertices (WalkAndTransform g) = map TransformPoint (vertices g)"
    by (rule vertices_WalkAndTransform)
next
  assume "vec_tr_main env argv = (tr, Inr 0)"
  from vec_tr_main_success [OF this] obtain lyr shp_driver out_name shp_ds shp_layer ftr ptr
    where l: "in_layer_of env argv = Some lyr"
      and f: "field_loop env shp_layer 0 (layer_fields lyr) = (ftr, Inr ())"
      and p: "feature_loop env shp_layer 0 (layer_features lyr) = (ptr, Inr ())"
      and t: "tr = [Call_DeleteDataSource shp_driver out_name,
                    Call_CreateDataSource shp_driver out_name,
                    Call_CreateLayer shp_ds (layer_name lyr) (layer_geom_type lyr)
                      (layer_srs lyr)]
                   @ ftr @ ptr @ [Call_Destroy_shp_ds, Call_Destroy_in_ds]"
    by blast
  from field_loop_created [of env shp_layer 0 "layer_fields lyr"] f
  have "created_features ftr = []" by simp
  with t have "created_features tr = created_features ptr"
    by (simp add: created_features_append)
  with feature_loop_created [OF p]
  have written: "map feat_geom (created_features tr)
      = map (\<lambda>f. map_option WalkAndTransform (feat_geom f)) (layer_features lyr)"
    by simp
  have verts: "map (\<lambda>f. map_option vertices (feat_geom f)) (created_features tr)
      = map (\<lambda>f. map_option (\<lambda>h. map TransformPoint (vertices h)) (feat_geom f))
          (layer_features lyr)"
    if wf: "\<forall>f \<in> set (layer_features lyr). \<forall>h. feat_geom f = Some h \<longrightarrow> well_formed h"
  proof -
    have "map (\<lambda>f. map_option vertices (feat_geom f)) (created_features tr)
        = map (map_option vertices) (map feat_geom (created_features tr))"
      by simp
    also have "\<dots> = map (\<lambda>f. map_option vertices (map_option WalkAndTransform (feat_geom f)))
                      (layer_features lyr)"
      by (simp only: written map_map comp_def)
    also have "\<dots> = map (\<lambda>f. map_option (\<lambda>h. map TransformPoint (vertices h)) (feat_geom f))
                      (layer_features lyr)"
    proof (rule map_cong [OF refl])
      fix f assume "f \<in> set (layer_features lyr)"
      with wf show "map_option vertices (map_option WalkAndTransform (feat_geom f))
          = map_option (\<lambda>h. map TransformPoint (vertices h)) (feat_geom f)"
        by (cases "feat_geom f") (simp_all add: vertices_WalkAndTransform)
    qed
    finally show ?thesis .
  qed
  from l written verts
  show "\<exists>lyr. in_layer_of env argv = Some lyr \<and>
         map feat_geom (created_features tr)
           = map (\<lambda>f. map_option WalkAndTransform (feat_geom f)) (layer_features lyr) \<and>
         ((\<forall>f \<in> set (layer_features lyr). \<forall>h. feat_geom f = Some h \<longrightarrow> well_formed h) \<longrightarrow>
          map (\<lambda>f. map_option vertices (feat_geom f)) (created_features tr)
            = map (\<lambda>f. map_option (\<lambda>h. map TransformPoint (vertices h)) (feat_geom f))
                (layer_features lyr))"
    by blast
qed

theorem every_vertex_transformed_once_witness:
  "well_formed (Geom [] [Geom [(5, 6, 7)] [], Geom [] [Geom [(1, 1, 1), (2, 2, 2)] []]]) \<and>
   vertices (WalkAndTransform
      (Geom [] [Geom [(5, 6, 7)] [], Geom [] [Geom [(1, 1, 1), (2, 2, 2 :: int)] []]]))
     = [(1005, 6, 7), (1001, 1, 1), (1002, 2, 2)] \<and>
   snd (vec_tr_main demo_ogr [''vec_tr.py'', ''in.shp'', ''out.shp'']) = Inr 0 \<and>
   in_layer_of demo_ogr [''vec_tr.py'', ''in.shp'', ''out.shp''] = Some demo_layer \<and>
   list_all (\<lambda>f. case feat_geom f of None \<Rightarrow> True | Some h \<Rightarrow> well_formed h)
     (layer_features demo_layer) \<and>
   map (\<lambda>f. map_option vertices (feat_geom f))
     (created_features (fst (vec_tr_main demo_ogr [''vec_tr.py'', ''in.shp'', ''out.shp''])))
     = [Some [(1000, 0, 0), (1001, 2, 3)], Some [(1005, 6, 7)]]"
proof -
  let ?argv = "[''vec_tr.py'', ''in.shp'', ''out.shp'']"
  let ?g = "Geom [] [Geom [(5, 6, 7)] [], Geom [] [Geom [(1, 1, 1), (2, 2, 2 :: int)] []]]"
  have wg: "well_formed ?g" by simp
  have vg: "map TransformPoint (vertices ?g) = [(1005, 6, 7), (1001, 1, 1), (1002, 2, 2)]"
    by (simp add: TransformPoint_def Let_def)
  from every_vertex_transformed_once [THEN conjunct2, THEN conjunct1, rule_format, OF wg] vg
  have c1: "vertices (WalkAndTransform ?g) = [(1005, 6, 7), (1001, 1, 1), (1002, 2, 2)]"
    by simp
  have r: "snd (vec_tr_main demo_ogr ?argv) = Inr 0" by code_simp
  then have h: "vec_tr_main demo_ogr ?argv = (fst (vec_tr_main demo_ogr ?argv), Inr 0)"
    by (simp add: prod_eq_iff)
  have l: "in_layer_of demo_ogr ?argv = Some demo_layer" by code_simp
  have wl: "list_all (\<lambda>f. case feat_geom f of None \<Rightarrow> True | Some h \<Rightarrow> well_formed h)
              (layer_features demo_layer)"
    by (simp add: demo_layer_def)
  then have wf: "\<forall>f \<in> set (layer_features demo_layer). \<forall>h. feat_geom f = Some h \<longrightarrow> well_formed h"
    by (auto simp: list_all_iff)
  have w: "map (\<lambda>f. map_option (\<lambda>h. map TransformPoint (vertices h)) (feat_geom f))
             (layer_features demo_layer)
           = [Some [(1000, 0, 0), (1001, 2, 3)], Some [(1005, 6, 7)]]"
    by (simp add: demo_layer_def TransformPoint_def Let_def)
  from every_vertex_transformed_once [THEN conjunct2, THEN conjunct2, rule_format, OF h] l wf w
  have c2: "map (\<lambda>f. map_option vertices (feat_geom f))
      (created_features (fst (vec_tr_main demo_ogr ?argv)))
     = [Some [(1000, 0, 0), (1001, 2, 3)], Some [(1005, 6, 7)]]"
    by auto
  from wg c1 r l wl c2 show ?thesis by simp
qed

subsection \<open>The output is deleted first\<close>

text \<open>
  Claim C9. In every run of \<^verbatim>\<open>main\<close> that reaches the creation of the output (the
  arguments name an input and an output, the input opens, the layer is found and the
  shapefile driver is there), the first effect is the call
  \<^verbatim>\<open>shp_driver.DeleteDataSource(outfile)\<close>, under no condition, so it comes before
  any feature is written, and it has been issued whatever fails afterwards.
\<close>

theorem output_deleted_first:
  assumes "in_layer_of env argv = Some lyr"
    and "outfile_of argv = Some out_name"
    and "ogr_GetDriverByName env ''ESRI Shapefile'' = Inr (Some shp_driver)"
  shows "\<exists>rest. fst (vec_tr_main env argv) = Call_DeleteDataSource shp_driver out_name # rest"
  using assms unfolding vec_tr_main_def in_layer_of_def outfile_of_def
  by (auto simp: and_then_emit and_then_lib_Inr and_then_attr_Some
           split: option.splits sum.splits)

theorem output_deleted_first_witness:
  "in_layer_of failing_ogr [''vec_tr.py'', ''in.shp'', ''out.shp''] = Some demo_layer \<and>
   outfile_of [''vec_tr.py'', ''in.shp'', ''out.shp''] = Some ''out.shp'' \<and>
   ogr_GetDriverByName failing_ogr ''ESRI Shapefile'' = Inr (Some (Handle 0)) \<and>
   snd (vec_tr_main failing_ogr [''vec_tr.py'', ''in.shp'', ''out.shp''])
     = Inl (RuntimeError ''disk full'') \<and>
   (\<exists>rest. fst (vec_tr_main failing_ogr [''vec_tr.py'', ''in.shp'', ''out.shp''])
            = Call_DeleteDataSource (Handle 0) ''out.shp'' # rest)"
proof -
  let ?argv = "[''vec_tr.py'', ''in.shp'', ''out.shp'']"
  have h1: "in_layer_of failing_ogr ?argv = Some demo_layer" by code_simp
  have h2: "outfile_of ?argv = Some ''out.shp''" by code_simp
  have h3: "ogr_GetDriverByName failing_ogr ''ESRI Shapefile'' = Inr (Some (Handle 0))"
    by code_simp
  have r: "snd (vec_tr_main failing_ogr ?argv) = Inl (RuntimeError ''disk full'')"
    by code_simp
  from output_deleted_first [OF h1 h2 h3] h1 h2 h3 r show ?thesis by blast
qed

section \<open>Properties of the proximity engine\<close>

subsection \<open>Source cells in the sweeps\<close>

lemma relax_keeps_zero:
  "is_source opts inp (cell_value rows c) \<Longrightarrow> d c = Some 0 \<Longrightarrow>
   relax opts inp rows cost offs c' d c = Some 0"
  by (cases "c' = c") (auto simp: relax_def split: list.splits)

lemma sweep_keeps_zero:
  "is_source opts inp (cell_value rows c) \<Longrightarrow> d c = Some 0 \<Longrightarrow>
   fold (relax opts inp rows cost offs) cs d c = Some 0"
  by (induction cs arbitrary: d) (simp_all add: relax_keeps_zero)

lemma sweep_source_zero:
  "is_source opts inp (cell_value rows c) \<Longrightarrow> c \<in> set cs \<Longrightarrow>
   fold (relax opts inp rows cost offs) cs d c = Some 0"
proof (induction cs arbitrary: d)
  case Nil
  then show ?case by simp
next
  case (Cons c' cs)
  show ?case
  proof (cases "c' = c")
    case True
    with Cons.prems(1) have "relax opts inp rows cost offs c' d c = Some 0"
      by (simp add: relax_def)
    with Cons.prems(1) show ?thesis by (simp add: sweep_keeps_zero)
  next
    case False
    with Cons show ?thesis by simp
  qed
qed

lemma cell_in_cells_of: "x < w \<Longrightarrow> y < h \<Longrightarrow> (int x, int y) \<in> set (cells_of w h)"
  by (force simp: cells_of_def)

lemma sweeps_source_zero:
  "is_source opts inp (cell_value rows (int x, int y)) \<Longrightarrow>
   x < in_width inp \<Longrightarrow> y < in_height inp \<Longrightarrow>
   sweeps opts inp rows cost (int x, int y) = Some 0"
  by (simp add: sweeps_def Let_def sweep_source_zero cell_in_cells_of)

lemma computeProximity_cell:
  assumes "computeProximity cost inp out opts sink = Inr out'"
    and "x < in_width inp" and "y < in_height inp"
  shows "\<exists>rows. read_rows inp = Inr rows \<and>
     out_cells out' ! y ! x =
       finalize opts inp out (cell_value rows (int x, int y))
         (sweeps opts inp rows cost (int x, int y))"
  using assms
  by (auto simp: computeProximity_def Let_def split: if_splits sum.splits)

subsection \<open>Target cells\<close>

text \<open>
  Claim C5, as amended. In every run of the engine that succeeds, a cell whose input
  value is in the target set gets the output 0, provided that \<open>FIXED_BUF_VAL\<close> is not
  configured, that the cell is not an input no-data cell under \<open>USE_INPUT_NODATA\<close>, and
  that \<open>MAXDIST\<close>, if given, is not negative.
\<close>

theorem target_cell_gets_zero:
  assumes "computeProximity cost inp out opts sink = Inr out'"
    and "read_rows inp = Inr rows"
    and "x < in_width inp" and "y < in_height inp"
    and "in_target_set opts inp (cell_value rows (int x, int y))"
    and "\<not> excluded opts inp (cell_value rows (int x, int y))"
    and "FIXED_BUF_VAL opts = None"
    and "within_maxdist opts 0"
  shows "out_cells out' ! y ! x = 0"
proof -
  let ?v = "cell_value rows (int x, int y)"
  from assms(5,6) have src: "is_source opts inp ?v" by (simp add: is_source_def)
  from computeProximity_cell [OF assms(1,3,4)] assms(2)
  have "out_cells out' ! y ! x = finalize opts inp out ?v (sweeps opts inp rows cost (int x, int y))"
    by auto
  also have "sweeps opts inp rows cost (int x, int y) = Some 0"
    using src assms(3,4) by (rule sweeps_source_zero)
  also have "reported opts inp 0 = 0"
    by (simp add: reported_def split: dist_units.splits)
  then have "finalize opts inp out ?v (Some 0) = 0"
    using assms(6,7,8) by (simp add: finalize_def)
  finally show ?thesis .
qed

theorem target_cell_gets_zero_witness:
  "\<not> isl (computeProximity unit_cost (corner_band 2) (fresh_band 2 (- 1)) plain_opts None) \<and>
   read_rows (corner_band 2) = Inr [[1, 0], [0, 0]] \<and>
   (0::nat) < in_width (corner_band 2) \<and> (0::nat) < in_height (corner_band 2) \<and>
   in_target_set plain_opts (corner_band 2)
     (cell_value [[1, 0], [0, 0]] (int 0, int 0)) \<and>
   \<not> excluded plain_opts (corner_band 2)
     (cell_value [[1, 0], [0, 0]] (int 0, int 0)) \<and>
   FIXED_BUF_VAL plain_opts = None \<and>
   within_maxdist plain_opts 0 \<and>
   output_of (computeProximity unit_cost (corner_band 2) (fresh_band 2 (- 1)) plain_opts None)
     ! 0 ! 0 = 0"
proof -
  let ?rows = "[[1, 0], [0, 0]] :: int list list"
  let ?run = "computeProximity unit_cost (corner_band 2) (fresh_band 2 (- 1)) plain_opts None"
  have h0: "\<not> isl ?run" by code_simp
  then obtain out' where h1: "?run = Inr out'" by (cases ?run) simp_all
  have h2: "read_rows (corner_band 2) = Inr ?rows" by code_simp
  have h3: "(0::nat) < in_width (corner_band 2)" by (simp add: corner_band_def)
  have h4: "(0::nat) < in_height (corner_band 2)" by (simp add: corner_band_def)
  have h5: "in_target_set plain_opts (corner_band 2) (cell_value ?rows (int 0, int 0))"
    by (simp add: in_target_set_def plain_opts_def cell_value_def)
  have h6: "\<not> excluded plain_opts (corner_band 2) (cell_value ?rows (int 0, int 0))"
    by (simp add: excluded_def plain_opts_def)
  have h7: "FIXED_BUF_VAL plain_opts = None" by (simp add: plain_opts_def)
  have h8: "within_maxdist plain_opts 0" by (simp add: within_maxdist_def plain_opts_def)
  from target_cell_gets_zero [OF h1 h2 h3 h4 h5 h6 h7 h8] h1
  have "output_of ?run ! 0 ! 0 = 0" by (simp add: output_of_def)
  with h0 h2 h3 h4 h5 h6 h7 h8 show ?thesis by blast
qed

text \<open>
  The claim as stated fails in three corners of the specification. Under
  \<open>USE_INPUT_NODATA\<close> an input no-data cell receives the no-data value whatever its
  value, also when the value is in the target set. With \<open>FIXED_BUF_VAL\<close> every cell
  that has a source within \<open>MAXDIST\<close>, the source cell included, receives that constant.
  With a negative \<open>MAXDIST\<close> no source lies within \<open>MAXDIST\<close> of any cell. In the three
  runs below the grid is 2 by 2, the cell in the corner has the target value 1, and the
  output there is not 0.
\<close>

theorem target_cell_gets_zero_counterexample:
  "read_rows (corner_band 2) = Inr [[1, 0], [0, 0]] \<and>
   read_rows ((corner_band 2)\<lparr>in_nodata := Some 1\<rparr>) = Inr [[1, 0], [0, 0]] \<and>
   in_target_set (plain_opts\<lparr>NODATA := Some (- 1), USE_INPUT_NODATA := True\<rparr>)
     ((corner_band 2)\<lparr>in_nodata := Some 1\<rparr>) 1 \<and>
   output_of (computeProximity unit_cost ((corner_band 2)\<lparr>in_nodata := Some 1\<rparr>)
                (fresh_band 2 9)
                (plain_opts\<lparr>NODATA := Some (- 1), USE_INPUT_NODATA := True\<rparr>) None) ! 0 ! 0
     = - 1 \<and>
   in_target_set (plain_opts\<lparr>MAXDIST := Some 3, FIXED_BUF_VAL := Some 5\<rparr>) (corner_band 2) 1 \<and>
   output_of (computeProximity unit_cost (corner_band 2) (fresh_band 2 9)
                (plain_opts\<lparr>MAXDIST := Some 3, FIXED_BUF_VAL := Some 5\<rparr>) None) ! 0 ! 0
     = 5 \<and>
   in_target_set (plain_opts\<lparr>MAXDIST := Some (- 2), NODATA := Some (- 1)\<rparr>) (corner_band 2) 1 \<and>
   output_of (computeProximity unit_cost (corner_band 2) (fresh_band 2 9)
                (plain_opts\<lparr>MAXDIST := Some (- 2), NODATA := Some (- 1)\<rparr>) None) ! 0 ! 0
     = - 1"
  by code_simp

subsection \<open>Determinism\<close>



end
